theory Spec2Isabelle
  imports Main
begin

section \<open>JavaScript values, objects and insertion-ordered sets\<close>

text \<open>
  The values a query row can hold, a property read can give and a formatter can receive. The
  transforms never compute with numbers: they pass them on, hand them to the external number
  formatter, or turn them into text. The number type is therefore the parameter \<open>'n\<close>.
  \<open>JMember k\<close> is the member \<open>k\<close> of \<open>Object.prototype\<close> (a built-in function; the prototype
  object itself for \<open>__proto__\<close>).
\<close>

datatype 'n jsval = JUndefined | JNull | JBool bool | JNum 'n | JStr string | JMember string

text \<open>
  A row is a plain JavaScript object, as the response parser makes it: its own properties in
  enumeration order, and \<open>Object.prototype\<close> as its prototype. \<open>Object.keys\<close> lists the names
  of the own properties in that order. The read \<open>d[k]\<close> gives the own property \<open>k\<close> where the
  row has one; otherwise it goes to the prototype and gives the member of that name, and
  \<open>undefined\<close> where the prototype has none either.
\<close>

type_synonym 'n row = "(string \<times> 'n jsval) list"

definition objectKeys :: "'n row \<Rightarrow> string list" where
  "objectKeys v = map fst v"

definition objectPrototypeMembers :: "string list" where
  "objectPrototypeMembers =
     [''constructor'', ''hasOwnProperty'', ''isPrototypeOf'', ''propertyIsEnumerable'',
      ''toLocaleString'', ''toString'', ''valueOf'', ''__proto__'', ''__defineGetter__'',
      ''__defineSetter__'', ''__lookupGetter__'', ''__lookupSetter__'']"

definition propertyGet :: "'n row \<Rightarrow> string \<Rightarrow> 'n jsval" where
  "propertyGet d k =
     (case map_of d k of
        Some v \<Rightarrow> v
      | None \<Rightarrow> (if k \<in> set objectPrototypeMembers then JMember k else JUndefined))"

text \<open>
  A JavaScript \<open>Set\<close> keeps its elements in insertion order and ignores the insertion of
  an element it already has. It is a list without repetition; \<open>Set.prototype.add\<close>:
\<close>

definition setAdd :: "'a list \<Rightarrow> 'a \<Rightarrow> 'a list" where
  "setAdd s k = (if k \<in> set s then s else s @ [k])"

text \<open>
  The libraries the plugins import and this repository does not contain:
  \<open>formatNumber\<close> of the host's core package, its categorical colour scales (a callable
  with a \<open>colors\<close> list), and the language's own conversion to text of a number and of a
  member of \<open>Object.prototype\<close>. Every function below takes them as the record \<open>ext\<close>.
\<close>

record color_scale =
  colors :: "string list"
  colorOf :: "string \<Rightarrow> string"

record 'n externals =
  formatNumber :: "string \<Rightarrow> 'n jsval \<Rightarrow> string"
  getScale :: "string \<Rightarrow> color_scale"
  numberToString :: "'n \<Rightarrow> string"
  memberToString :: "string \<Rightarrow> string"

text \<open>\<open>ToString\<close> on a value, as string concatenation and template literals apply it.\<close>

fun toString :: "'n externals \<Rightarrow> 'n jsval \<Rightarrow> string" where
  "toString ext JUndefined = ''undefined''"
| "toString ext JNull = ''null''"
| "toString ext (JBool b) = (if b then ''true'' else ''false'')"
| "toString ext (JNum n) = numberToString ext n"
| "toString ext (JStr s) = s"
| "toString ext (JMember k) = memberToString ext k"

section \<open>The pie plugin\<close>

record 'n name_value =
  nv_name :: string
  nv_value :: "'n jsval"

text \<open>\<open>transformSeriesData\<close> (mo-echarts-pie, controlPanel.ts).\<close>

definition transformSeriesData :: "'n row list \<Rightarrow> 'n name_value list" where
  "transformSeriesData data =
     (let keys = map objectKeys data;
          keysSets = fold (\<lambda>el s. fold (\<lambda>k s. setAdd s k) el s) keys [];
          nameValuesChartData =
            fold (\<lambda>d acc. fold (\<lambda>k acc. acc @ [\<lparr>nv_name = k, nv_value = propertyGet d k\<rparr>])
                               keysSets acc)
                 data []
      in nameValuesChartData)"

text \<open>
  What the charting library hands a pie formatter: the slice's name, value and percentage.
  The source types the argument as \<open>any\<close>, so each field is an arbitrary value.
\<close>

record 'n pie_params =
  p_name :: "'n jsval"
  p_value :: "'n jsval"
  p_percent :: "'n jsval"

text \<open>\<open>formatPieLabel\<close> (mo-echarts-pie, controlPanel.ts).\<close>

definition formatPieLabel :: "'n externals \<Rightarrow> 'n pie_params \<Rightarrow> string \<Rightarrow> string \<Rightarrow> 'n jsval" where
  "formatPieLabel ext params numberFormat labelType =
     (let name = p_name params; val = p_value params; percent = p_percent params;
          formattedValue = formatNumber ext numberFormat val;
          formattedPercent = toString ext percent @ ''%''
      in if labelType = ''key'' then name
         else if labelType = ''value'' then JStr formattedValue
         else if labelType = ''percent'' then JStr formattedPercent
         else if labelType = ''key_value'' then JStr (toString ext name @ '': '' @ formattedValue)
         else if labelType = ''key_value_percent'' then
           JStr (toString ext name @ '': '' @ formattedValue @ '' ('' @ formattedPercent @ '')'')
         else if labelType = ''key_percent'' then JStr (toString ext name @ '': '' @ formattedPercent)
         else name)"

text \<open>The chart specification of the pie plugin, object by object.\<close>

record pie_title =
  title_show :: bool
  title_text :: string
  title_subtext :: string
  title_left :: string

record 'n pie_tooltip =
  ptt_show :: bool
  ptt_trigger :: string
  ptt_formatter :: "'n pie_params \<Rightarrow> 'n jsval"
  ptt_valueFormatter :: "'n jsval \<Rightarrow> string"

record pie_legend =
  plg_show :: bool
  plg_orient :: string
  plg_left :: string
  plg_top :: string

record 'n emphasis_label =
  el_show :: bool
  el_fontSize :: string
  el_fontWeight :: string
  el_formatter :: "'n pie_params \<Rightarrow> 'n jsval"

record emphasis_itemStyle =
  shadowBlur :: int
  shadowOffsetX :: int
  shadowColor :: string

record 'n pie_emphasis =
  em_label :: "'n emphasis_label"
  em_itemStyle :: emphasis_itemStyle

record pie_labelLine =
  ll_show :: bool

text \<open>\<open>alignTo\<close> and \<open>bleedMargin\<close> are present only when the labels are outside.\<close>

record 'n pie_label =
  pl_show :: bool
  pl_formatter :: "'n pie_params \<Rightarrow> 'n jsval"
  pl_position :: string
  pl_alignTo :: "string option"
  pl_bleedMargin :: "int option"

text \<open>The radius is a single string or an array of strings.\<close>

datatype radius = RadiusScalar string | RadiusArray "string list"

record 'n pie_series =
  ps_type :: string
  ps_radius :: radius
  ps_data :: "'n name_value list"
  ps_emphasis :: "'n pie_emphasis"
  ps_labelLine :: pie_labelLine
  ps_label :: "'n pie_label"
  ps_top :: string
  ps_bottom :: string
  ps_right :: string
  ps_left :: string

record 'n pie_chart_options =
  pc_title :: pie_title
  pc_color :: "string list"
  pc_tooltip :: "'n pie_tooltip"
  pc_legend :: pie_legend
  pc_series :: "'n pie_series list"

text \<open>\<open>buildPieChart\<close> (mo-echarts-pie, controlPanel.ts), with the source's parameter order.\<close>

definition buildPieChart ::
  "'n externals \<Rightarrow> 'n row list \<Rightarrow> string \<Rightarrow> string \<Rightarrow> bool \<Rightarrow> bool \<Rightarrow> 'n \<Rightarrow> 'n \<Rightarrow> bool
    \<Rightarrow> string \<Rightarrow> string \<Rightarrow> bool \<Rightarrow> bool \<Rightarrow> bool \<Rightarrow> string \<Rightarrow> bool \<Rightarrow> bool \<Rightarrow> string
    \<Rightarrow> string \<Rightarrow> string \<Rightarrow> string \<Rightarrow> string \<Rightarrow> string \<Rightarrow> string \<Rightarrow> string
    \<Rightarrow> 'n pie_chart_options" where
  "buildPieChart ext data chartTitle chartSubTitle showLegend showTitle outerRadius innerRadius donut
      numberFormat colorScheme showLabels labelsOutside labelLine labelPosition showTooltip highlight
      labelType legendVertical legendHorizontal legendOrientation
      marginTop marginBottom marginRight marginLeft =
     (let nameValuesChartData = transformSeriesData data;
          formatter = (\<lambda>params. formatPieLabel ext params numberFormat labelType);
          colorScale = getScale ext colorScheme
      in \<lparr>pc_title = \<lparr>title_show = showTitle, title_text = chartTitle,
                       title_subtext = chartSubTitle, title_left = ''center''\<rparr>,
          pc_color = colors colorScale,
          pc_tooltip = \<lparr>ptt_show = showTooltip, ptt_trigger = ''item'', ptt_formatter = formatter,
                         ptt_valueFormatter = (\<lambda>v. formatNumber ext numberFormat v)\<rparr>,
          pc_legend = \<lparr>plg_show = showLegend, plg_orient = legendOrientation,
                        plg_left = legendHorizontal, plg_top = legendVertical\<rparr>,
          pc_series =
            [\<lparr>ps_type = ''pie'',
              ps_radius =
                (if donut
                 then RadiusArray [toString ext (JNum innerRadius) @ ''%'',
                                   toString ext (JNum outerRadius) @ ''%'']
                 else RadiusScalar (toString ext (JNum outerRadius) @ ''%'')),
              ps_data = nameValuesChartData,
              ps_emphasis =
                \<lparr>em_label = \<lparr>el_show = highlight, el_fontSize = ''18'', el_fontWeight = ''bold'',
                              el_formatter = formatter\<rparr>,
                 em_itemStyle = \<lparr>shadowBlur = 10, shadowOffsetX = 0,
                                  shadowColor = ''rgba(0, 0, 0, 0.5)''\<rparr>\<rparr>,
              ps_labelLine =
                (if labelsOutside \<and> labelLine then \<lparr>ll_show = True\<rparr> else \<lparr>ll_show = False\<rparr>),
              ps_label =
                (if labelsOutside
                 then \<lparr>pl_show = showLabels, pl_formatter = formatter, pl_position = labelPosition,
                       pl_alignTo = Some ''none'', pl_bleedMargin = Some 5\<rparr>
                 else \<lparr>pl_show = showLabels, pl_formatter = formatter, pl_position = labelPosition,
                       pl_alignTo = None, pl_bleedMargin = None\<rparr>),
              ps_top = marginTop, ps_bottom = marginBottom,
              ps_right = marginRight, ps_left = marginLeft\<rparr>]\<rparr>)"

section \<open>The bar plugin\<close>

text \<open>
  What the charting library hands a bar label formatter: the series name, the category name
  and, as \<open>value\<close>, the dataset row of the bar. The source types the argument as \<open>any\<close>.
\<close>

record 'n bar_params =
  bp_seriesName :: "'n jsval"
  bp_name :: "'n jsval"
  bp_value :: "'n row"

text \<open>\<open>null\<close> is \<open>None\<close> in an encoding.\<close>

record encode =
  enc_x :: "string option"
  enc_y :: "string option"

record 'n bar_label =
  bl_show :: bool
  bl_position :: string
  bl_formatter :: "'n bar_params \<Rightarrow> string"

record item_style =
  is_color :: string

text \<open>
  The template \<open>singleSeriesConfig\<close>: its \<open>name\<close> is the empty object \<open>{}\<close>, which every
  pushed series replaces by a string. \<open>None\<close> in \<open>stack\<close> is an object without that key.
\<close>

record 'n single_series_config =
  ssc_name :: unit
  ssc_type :: string
  ssc_encode :: encode
  ssc_label :: "'n bar_label"
  ssc_itemStyle :: item_style
  ssc_stack :: "string option"

record 'n bar_series =
  bs_name :: string
  bs_type :: string
  bs_encode :: encode
  bs_label :: "'n bar_label"
  bs_itemStyle :: item_style
  bs_stack :: "string option"

record 'n dataset =
  ds_dimensions :: "string list"
  ds_source :: "'n row list"

text \<open>An axis object: \<open>{}\<close> has neither key.\<close>

record axis =
  ax_type :: "string option"
  ax_show :: "bool option"

record bar_legend =
  blg_show :: bool

record bar_tooltip =
  btt_show :: bool

record 'n bar_chart_options =
  bc_dataset :: "'n dataset"
  bc_legend :: bar_legend
  bc_tooltip :: bar_tooltip
  bc_yAxis :: axis
  bc_xAxis :: axis
  bc_series :: "'n bar_series list"

text \<open>\<open>labelFormatter\<close>, the closure inside \<open>buildEchartOptions\<close> (mo-echarts-bar, transformProps.ts).\<close>

definition labelFormatter :: "'n externals \<Rightarrow> string \<Rightarrow> string \<Rightarrow> 'n bar_params \<Rightarrow> string" where
  "labelFormatter ext numberFormat seriesLabelsFormat params =
     (let seriesName = bp_seriesName params; categoryName = bp_name params;
          val = propertyGet (bp_value params) (toString ext seriesName);
          formattedValue = formatNumber ext numberFormat val
      in if seriesLabelsFormat = ''seriesNameCategoryValue'' then
           toString ext seriesName @ '' - '' @ toString ext categoryName @ '' : '' @ formattedValue
         else if seriesLabelsFormat = ''seriesNameValue'' then
           toString ext seriesName @ '' : '' @ formattedValue
         else if seriesLabelsFormat = ''categoryValue'' then
           toString ext categoryName @ '' : '' @ formattedValue
         else formattedValue)"

text \<open>\<open>buildEchartOptions\<close> (mo-echarts-bar, transformProps.ts).\<close>

definition buildEchartOptions ::
  "'n externals \<Rightarrow> 'n row list \<Rightarrow> string \<Rightarrow> bool \<Rightarrow> bool \<Rightarrow> bool \<Rightarrow> string \<Rightarrow> bool
    \<Rightarrow> string \<Rightarrow> string \<Rightarrow> string \<Rightarrow> bool \<Rightarrow> 'n bar_chart_options" where
  "buildEchartOptions ext data cols invertBars showLegend seriesLabelsShow seriesLabelsPosition
      seriesCategoriesShow numberFormat seriesLabelsFormat colorScheme showTooltip =
     (let colorScale = getScale ext colorScheme;
          keys = map objectKeys data;
          keysSets = fold (\<lambda>el s. fold (\<lambda>k s. setAdd s k) el s) keys [];
          dimensions = keysSets;
          yAxisAsCategories =
            (if invertBars then \<lparr>ax_type = Some ''category'', ax_show = Some seriesCategoriesShow\<rparr>
             else \<lparr>ax_type = None, ax_show = None\<rparr>);
          xAxisAsCategories =
            (if \<not> invertBars then \<lparr>ax_type = Some ''category'', ax_show = Some seriesCategoriesShow\<rparr>
             else \<lparr>ax_type = None, ax_show = None\<rparr>);
          axisEncoding =
            (if invertBars then \<lparr>enc_x = None, enc_y = Some cols\<rparr>
             else \<lparr>enc_x = Some cols, enc_y = None\<rparr>);
          singleSeriesConfig =
            \<lparr>ssc_name = (), ssc_type = ''bar'', ssc_encode = axisEncoding,
             ssc_label = \<lparr>bl_show = seriesLabelsShow, bl_position = seriesLabelsPosition,
                          bl_formatter = labelFormatter ext numberFormat seriesLabelsFormat\<rparr>,
             ssc_itemStyle = \<lparr>is_color = ''auto''\<rparr>,
             ssc_stack = None\<rparr>;
          allSeriesConfigs =
            fold (\<lambda>dim acc.
                    if dim \<noteq> cols then
                      (let setValueAxisEncoding =
                             (if invertBars then (ssc_encode singleSeriesConfig)\<lparr>enc_x := Some dim\<rparr>
                              else (ssc_encode singleSeriesConfig)\<lparr>enc_y := Some dim\<rparr>)
                       in acc @ [\<lparr>bs_name = dim,
                                  bs_type = ssc_type singleSeriesConfig,
                                  bs_encode = setValueAxisEncoding,
                                  bs_label = ssc_label singleSeriesConfig,
                                  bs_itemStyle = \<lparr>is_color = colorOf colorScale dim\<rparr>,
                                  bs_stack = ssc_stack singleSeriesConfig\<rparr>])
                    else acc)
                 dimensions []
      in \<lparr>bc_dataset = \<lparr>ds_dimensions = dimensions, ds_source = data\<rparr>,
          bc_legend = \<lparr>blg_show = showLegend\<rparr>,
          bc_tooltip = \<lparr>btt_show = showTooltip\<rparr>,
          bc_yAxis = yAxisAsCategories,
          bc_xAxis = xAxisAsCategories,
          bc_series = allSeriesConfigs\<rparr>)"

section \<open>The bar plugin with stacking, legend orientation and margins\<close>

text \<open>The legend options: \<open>orient\<close> and whichever offsets the orientation sets.\<close>

record legend_offsets =
  off_left :: "int option"
  off_bottom :: "int option"
  off_right :: "int option"
  off_top :: "int option"

record legend_options =
  lo_orient :: string
  lo_left :: "int option"
  lo_bottom :: "int option"
  lo_right :: "int option"
  lo_top :: "int option"

text \<open>\<open>legendOrientationBuilder\<close> (the second bar \<open>transformProps\<close>, src/unnamed/part_002).\<close>

definition legendOrientationBuilder :: "string \<Rightarrow> legend_options" where
  "legendOrientationBuilder legendOrientation =
     (let orient = (if legendOrientation \<in> set [''top'', ''bottom''] then ''horizontal''
                    else ''vertical'');
          options =
            (if legendOrientation = ''left'' then
               \<lparr>off_left = Some 0, off_bottom = None, off_right = None, off_top = None\<rparr>
             else if legendOrientation = ''bottom'' then
               \<lparr>off_left = None, off_bottom = Some 0, off_right = None, off_top = None\<rparr>
             else
               \<lparr>off_left = None, off_bottom = None, off_right = Some 0, off_top = Some 0\<rparr>)
      in \<lparr>lo_orient = orient, lo_left = off_left options, lo_bottom = off_bottom options,
          lo_right = off_right options, lo_top = off_top options\<rparr>)"

record stacked_legend =
  slg_show :: bool
  slg_orient :: string
  slg_left :: "int option"
  slg_bottom :: "int option"
  slg_right :: "int option"
  slg_top :: "int option"

record 'n stacked_tooltip =
  stt_show :: bool
  stt_valueFormatter :: "'n jsval \<Rightarrow> string"

record grid =
  grid_top :: string
  grid_bottom :: string
  grid_right :: string
  grid_left :: string

record 'n stacked_chart_options =
  sc_dataset :: "'n dataset"
  sc_legend :: stacked_legend
  sc_tooltip :: "'n stacked_tooltip"
  sc_yAxis :: axis
  sc_xAxis :: axis
  sc_series :: "'n bar_series list"
  sc_grid :: grid

text \<open>\<open>labelFormatter\<close>, the closure inside \<open>buildEchartOptions\<close> of src/unnamed/part_002.\<close>

definition labelFormatterStacked :: "'n externals \<Rightarrow> string \<Rightarrow> string \<Rightarrow> 'n bar_params \<Rightarrow> string" where
  "labelFormatterStacked ext numberFormat seriesLabelsFormat params =
     (let seriesName = bp_seriesName params; categoryName = bp_name params;
          val = propertyGet (bp_value params) (toString ext seriesName);
          formattedValue = formatNumber ext numberFormat val
      in if seriesLabelsFormat = ''seriesNameCategoryValue'' then
           toString ext seriesName @ '' - '' @ toString ext categoryName @ '' : '' @ formattedValue
         else if seriesLabelsFormat = ''seriesNameValue'' then
           toString ext seriesName @ '' : '' @ formattedValue
         else if seriesLabelsFormat = ''categoryValue'' then
           toString ext categoryName @ '' : '' @ formattedValue
         else formattedValue)"

text \<open>\<open>buildEchartOptions\<close> of src/unnamed/part_002.\<close>

definition buildEchartOptionsStacked ::
  "'n externals \<Rightarrow> 'n row list \<Rightarrow> string \<Rightarrow> bool \<Rightarrow> bool \<Rightarrow> bool \<Rightarrow> string \<Rightarrow> bool
    \<Rightarrow> string \<Rightarrow> string \<Rightarrow> string \<Rightarrow> bool \<Rightarrow> bool \<Rightarrow> string \<Rightarrow> string \<Rightarrow> string
    \<Rightarrow> string \<Rightarrow> string \<Rightarrow> 'n stacked_chart_options" where
  "buildEchartOptionsStacked ext data cols invertBars showLegend seriesLabelsShow
      seriesLabelsPosition seriesCategoriesShow numberFormat seriesLabelsFormat colorScheme
      showTooltip stackSeries marginTop marginBottom marginRight marginLeft legendOrientation =
     (let colorScale = getScale ext colorScheme;
          keys = map objectKeys data;
          keysSets = fold (\<lambda>el s. fold (\<lambda>k s. setAdd s k) el s) keys [];
          dimensions = keysSets;
          yAxisAsCategories =
            (if invertBars then \<lparr>ax_type = Some ''category'', ax_show = Some seriesCategoriesShow\<rparr>
             else \<lparr>ax_type = None, ax_show = None\<rparr>);
          xAxisAsCategories =
            (if \<not> invertBars then \<lparr>ax_type = Some ''category'', ax_show = Some seriesCategoriesShow\<rparr>
             else \<lparr>ax_type = None, ax_show = None\<rparr>);
          axisEncoding =
            (if invertBars then \<lparr>enc_x = None, enc_y = Some cols\<rparr>
             else \<lparr>enc_x = Some cols, enc_y = None\<rparr>);
          stackSettings = (if stackSeries then Some ''totals'' else None);
          singleSeriesConfig =
            \<lparr>ssc_name = (), ssc_type = ''bar'', ssc_encode = axisEncoding,
             ssc_label = \<lparr>bl_show = seriesLabelsShow, bl_position = seriesLabelsPosition,
                          bl_formatter = labelFormatterStacked ext numberFormat seriesLabelsFormat\<rparr>,
             ssc_itemStyle = \<lparr>is_color = ''auto''\<rparr>,
             ssc_stack = stackSettings\<rparr>;
          allSeriesConfigs =
            fold (\<lambda>dim acc.
                    if dim \<noteq> cols then
                      (let setValueAxisEncoding =
                             (if invertBars then (ssc_encode singleSeriesConfig)\<lparr>enc_x := Some dim\<rparr>
                              else (ssc_encode singleSeriesConfig)\<lparr>enc_y := Some dim\<rparr>)
                       in acc @ [\<lparr>bs_name = dim,
                                  bs_type = ssc_type singleSeriesConfig,
                                  bs_encode = setValueAxisEncoding,
                                  bs_label = ssc_label singleSeriesConfig,
                                  bs_itemStyle = \<lparr>is_color = colorOf colorScale dim\<rparr>,
                                  bs_stack = ssc_stack singleSeriesConfig\<rparr>])
                    else acc)
                 dimensions [];
          legendOptions = legendOrientationBuilder legendOrientation
      in \<lparr>sc_dataset = \<lparr>ds_dimensions = dimensions, ds_source = data\<rparr>,
          sc_legend = \<lparr>slg_show = showLegend, slg_orient = lo_orient legendOptions,
                       slg_left = lo_left legendOptions, slg_bottom = lo_bottom legendOptions,
                       slg_right = lo_right legendOptions, slg_top = lo_top legendOptions\<rparr>,
          sc_tooltip = \<lparr>stt_show = showTooltip,
                        stt_valueFormatter = (\<lambda>v. formatNumber ext numberFormat v)\<rparr>,
          sc_yAxis = yAxisAsCategories,
          sc_xAxis = xAxisAsCategories,
          sc_series = allSeriesConfigs,
          sc_grid = \<lparr>grid_top = marginTop, grid_bottom = marginBottom,
                     grid_right = marginRight, grid_left = marginLeft\<rparr>\<rparr>)"

section \<open>An instance of the external libraries\<close>

text \<open>
  For evaluating the functions at concrete inputs: numbers are integers, written in decimal
  as the language writes an integral number; a member of \<open>Object.prototype\<close> is written as a
  native function of its name; the number formatter writes its argument as the conversion
  to text does, whatever the format; the colour scale has two colours and alternates between
  them by the length of the name. The general theorems hold for every instance.
\<close>

fun showNat :: "nat \<Rightarrow> string" where
  "showNat n = (if n < 10 then [''0123456789'' ! n]
                else showNat (n div 10) @ [''0123456789'' ! (n mod 10)])"

declare showNat.simps [simp del]

definition showInt :: "int \<Rightarrow> string" where
  "showInt i = (if i < 0 then ''-'' @ showNat (nat (- i)) else showNat (nat i))"

definition exampleScale :: color_scale where
  "exampleScale =
     \<lparr>colors = [''#1f77b4'', ''#ff7f0e''],
      colorOf = (\<lambda>name. if even (length name) then ''#1f77b4'' else ''#ff7f0e'')\<rparr>"

definition showMember :: "string \<Rightarrow> string" where
  "showMember k = ''function '' @ k @ ''() { [native code] }''"

definition exampleExt :: "int externals" where
  "exampleExt =
     \<lparr>formatNumber = (\<lambda>numberFormat v.
        case v of JUndefined \<Rightarrow> ''undefined'' | JNull \<Rightarrow> ''null''
        | JBool b \<Rightarrow> (if b then ''true'' else ''false'') | JNum n \<Rightarrow> showInt n | JStr s \<Rightarrow> s
        | JMember k \<Rightarrow> showMember k),
      getScale = (\<lambda>colorScheme. exampleScale),
      numberToString = showInt,
      memberToString = showMember\<rparr>"

section \<open>Notions of the specification\<close>

text \<open>The Dimension Set: the keys observed across all rows.\<close>

definition dimensionSet :: "'n row list \<Rightarrow> string set" where
  "dimensionSet data = (\<Union>d \<in> set data. set (objectKeys d))"

section \<open>The transforms over a store of objects\<close>

text \<open>
  JavaScript arrays, sets and objects are references. To say what an invocation writes, the
  transforms are given a second time over an explicit store: the array \<open>data\<close> and its rows
  are objects of the store that the caller owns; \<open>new Set()\<close> and \<open>[]\<close> allocate a fresh
  object; \<open>add\<close> and \<open>push\<close> write to the object they are called on. The object literals that
  the transforms build and never change afterwards (a name/value pair, a series, the array
  made by \<open>Array.from\<close>) are values. \<open>nextAddr\<close> is the first address not yet allocated.
\<close>

type_synonym addr = nat

datatype 'n cell =
    Row "'n row"
  | RowArray "addr list"
  | StrSet "string list"
  | NVArray "'n name_value list"
  | SeriesArray "'n bar_series list"

record 'n store =
  cells :: "addr \<Rightarrow> 'n cell option"
  nextAddr :: addr

definition alloc :: "'n cell \<Rightarrow> 'n store \<Rightarrow> addr \<times> 'n store" where
  "alloc c h = (nextAddr h, h\<lparr>cells := (cells h)(nextAddr h \<mapsto> c), nextAddr := Suc (nextAddr h)\<rparr>)"

text \<open>Reading an object as what the code expects there; \<open>None\<close> is a \<open>TypeError\<close>.\<close>

definition getRow :: "'n store \<Rightarrow> addr \<Rightarrow> 'n row option" where
  "getRow h a = (case cells h a of Some (Row r) \<Rightarrow> Some r | _ \<Rightarrow> None)"

definition getRowArray :: "'n store \<Rightarrow> addr \<Rightarrow> addr list option" where
  "getRowArray h a = (case cells h a of Some (RowArray xs) \<Rightarrow> Some xs | _ \<Rightarrow> None)"

definition getStrSet :: "'n store \<Rightarrow> addr \<Rightarrow> string list option" where
  "getStrSet h a = (case cells h a of Some (StrSet xs) \<Rightarrow> Some xs | _ \<Rightarrow> None)"

definition getNVArray :: "'n store \<Rightarrow> addr \<Rightarrow> 'n name_value list option" where
  "getNVArray h a = (case cells h a of Some (NVArray xs) \<Rightarrow> Some xs | _ \<Rightarrow> None)"

definition getSeriesArray :: "'n store \<Rightarrow> addr \<Rightarrow> 'n bar_series list option" where
  "getSeriesArray h a = (case cells h a of Some (SeriesArray xs) \<Rightarrow> Some xs | _ \<Rightarrow> None)"

text \<open>\<open>forEach\<close> with a callback that writes to the store and may throw.\<close>

fun forEach :: "('a \<Rightarrow> 's \<Rightarrow> 's option) \<Rightarrow> 'a list \<Rightarrow> 's \<Rightarrow> 's option" where
  "forEach f [] h = Some h"
| "forEach f (x # xs) h = (case f x h of None \<Rightarrow> None | Some h' \<Rightarrow> forEach f xs h')"

text \<open>\<open>Set.prototype.add\<close> and \<open>Array.prototype.push\<close> on an object of the store.\<close>

definition setAdd_st :: "addr \<Rightarrow> string \<Rightarrow> 'n store \<Rightarrow> 'n store option" where
  "setAdd_st s k h =
     (case getStrSet h s of None \<Rightarrow> None
      | Some xs \<Rightarrow> Some (h\<lparr>cells := (cells h)(s \<mapsto> StrSet (setAdd xs k))\<rparr>))"

definition pushNV_st :: "addr \<Rightarrow> 'n name_value \<Rightarrow> 'n store \<Rightarrow> 'n store option" where
  "pushNV_st a x h =
     (case getNVArray h a of None \<Rightarrow> None
      | Some xs \<Rightarrow> Some (h\<lparr>cells := (cells h)(a \<mapsto> NVArray (xs @ [x]))\<rparr>))"

definition pushSeries_st :: "addr \<Rightarrow> 'n bar_series \<Rightarrow> 'n store \<Rightarrow> 'n store option" where
  "pushSeries_st a x h =
     (case getSeriesArray h a of None \<Rightarrow> None
      | Some xs \<Rightarrow> Some (h\<lparr>cells := (cells h)(a \<mapsto> SeriesArray (xs @ [x]))\<rparr>))"

text \<open>
  \<open>transformSeriesData\<close> (mo-echarts-pie, controlPanel.ts) over the store: it returns the
  reference of the array it has filled.
\<close>

definition transformSeriesData_st :: "addr \<Rightarrow> 'n store \<Rightarrow> (addr \<times> 'n store) option" where
  "transformSeriesData_st data h =
     (case getRowArray h data of None \<Rightarrow> None
      | Some elems \<Rightarrow>
     (case those (map (\<lambda>v. map_option objectKeys (getRow h v)) elems) of None \<Rightarrow> None
      | Some keys \<Rightarrow>
     (let (keysSets, h1) = alloc (StrSet []) h in
     (case forEach (\<lambda>el. forEach (\<lambda>k. setAdd_st keysSets k) el) keys h1 of None \<Rightarrow> None
      | Some h2 \<Rightarrow>
     (let (nameValuesChartData, h3) = alloc (NVArray []) h2 in
     (case getRowArray h3 data of None \<Rightarrow> None
      | Some rowRefs \<Rightarrow>
     (case forEach (\<lambda>d h. case getStrSet h keysSets of None \<Rightarrow> None
                      | Some ks \<Rightarrow>
                          forEach (\<lambda>k h. case getRow h d of None \<Rightarrow> None
                                     | Some row \<Rightarrow>
                                         pushNV_st nameValuesChartData
                                           \<lparr>nv_name = k, nv_value = propertyGet row k\<rparr> h)
                                  ks h)
                   rowRefs h3 of None \<Rightarrow> None
      | Some h4 \<Rightarrow> Some (nameValuesChartData, h4))))))))"

text \<open>
  The store \<open>h\<close> holds at \<open>data\<close> an array of row objects whose contents are \<open>rows\<close>, all of
  them allocated.
\<close>

definition holdsRows :: "'n store \<Rightarrow> addr \<Rightarrow> 'n row list \<Rightarrow> bool" where
  "holdsRows h data rows =
     (data < nextAddr h \<and>
      (case getRowArray h data of None \<Rightarrow> False
       | Some elems \<Rightarrow> list_all (\<lambda>v. v < nextAddr h) elems \<and> map (getRow h) elems = map Some rows))"

text \<open>
  \<open>buildPieChart\<close> over the store. The result is the chart specification as it stands when
  the function returns, the series data read through its reference, and the store then.
\<close>

definition buildPieChart_st ::
  "'n externals \<Rightarrow> addr \<Rightarrow> string \<Rightarrow> string \<Rightarrow> bool \<Rightarrow> bool \<Rightarrow> 'n \<Rightarrow> 'n \<Rightarrow> bool
    \<Rightarrow> string \<Rightarrow> string \<Rightarrow> bool \<Rightarrow> bool \<Rightarrow> bool \<Rightarrow> string \<Rightarrow> bool \<Rightarrow> bool \<Rightarrow> string
    \<Rightarrow> string \<Rightarrow> string \<Rightarrow> string \<Rightarrow> string \<Rightarrow> string \<Rightarrow> string \<Rightarrow> string
    \<Rightarrow> 'n store \<Rightarrow> ('n pie_chart_options \<times> 'n store) option" where
  "buildPieChart_st ext data chartTitle chartSubTitle showLegend showTitle outerRadius innerRadius donut
      numberFormat colorScheme showLabels labelsOutside labelLine labelPosition showTooltip highlight
      labelType legendVertical legendHorizontal legendOrientation
      marginTop marginBottom marginRight marginLeft h =
     (case transformSeriesData_st data h of None \<Rightarrow> None
      | Some (nameValuesChartData, h') \<Rightarrow>
     (case getNVArray h' nameValuesChartData of None \<Rightarrow> None
      | Some pairs \<Rightarrow>
     (let formatter = (\<lambda>params. formatPieLabel ext params numberFormat labelType);
          colorScale = getScale ext colorScheme
      in Some (\<lparr>pc_title = \<lparr>title_show = showTitle, title_text = chartTitle,
                       title_subtext = chartSubTitle, title_left = ''center''\<rparr>,
          pc_color = colors colorScale,
          pc_tooltip = \<lparr>ptt_show = showTooltip, ptt_trigger = ''item'', ptt_formatter = formatter,
                         ptt_valueFormatter = (\<lambda>v. formatNumber ext numberFormat v)\<rparr>,
          pc_legend = \<lparr>plg_show = showLegend, plg_orient = legendOrientation,
                        plg_left = legendHorizontal, plg_top = legendVertical\<rparr>,
          pc_series =
            [\<lparr>ps_type = ''pie'',
              ps_radius =
                (if donut
                 then RadiusArray [toString ext (JNum innerRadius) @ ''%'',
                                   toString ext (JNum outerRadius) @ ''%'']
                 else RadiusScalar (toString ext (JNum outerRadius) @ ''%'')),
              ps_data = pairs,
              ps_emphasis =
                \<lparr>em_label = \<lparr>el_show = highlight, el_fontSize = ''18'', el_fontWeight = ''bold'',
                              el_formatter = formatter\<rparr>,
                 em_itemStyle = \<lparr>shadowBlur = 10, shadowOffsetX = 0,
                                  shadowColor = ''rgba(0, 0, 0, 0.5)''\<rparr>\<rparr>,
              ps_labelLine =
                (if labelsOutside \<and> labelLine then \<lparr>ll_show = True\<rparr> else \<lparr>ll_show = False\<rparr>),
              ps_label =
                (if labelsOutside
                 then \<lparr>pl_show = showLabels, pl_formatter = formatter, pl_position = labelPosition,
                       pl_alignTo = Some ''none'', pl_bleedMargin = Some 5\<rparr>
                 else \<lparr>pl_show = showLabels, pl_formatter = formatter, pl_position = labelPosition,
                       pl_alignTo = None, pl_bleedMargin = None\<rparr>),
              ps_top = marginTop, ps_bottom = marginBottom,
              ps_right = marginRight, ps_left = marginLeft\<rparr>]\<rparr>, h'))))"

text \<open>
  \<open>buildEchartOptions\<close> of src/unnamed/part_002 over the store; \<open>source: data\<close> and
  \<open>series: allSeriesConfigs\<close> are read through their references when the function returns.
\<close>

definition buildEchartOptionsStacked_st ::
  "'n externals \<Rightarrow> addr \<Rightarrow> string \<Rightarrow> bool \<Rightarrow> bool \<Rightarrow> bool \<Rightarrow> string \<Rightarrow> bool
    \<Rightarrow> string \<Rightarrow> string \<Rightarrow> string \<Rightarrow> bool \<Rightarrow> bool \<Rightarrow> string \<Rightarrow> string \<Rightarrow> string
    \<Rightarrow> string \<Rightarrow> string \<Rightarrow> 'n store \<Rightarrow> ('n stacked_chart_options \<times> 'n store) option" where
  "buildEchartOptionsStacked_st ext data cols invertBars showLegend seriesLabelsShow
      seriesLabelsPosition seriesCategoriesShow numberFormat seriesLabelsFormat colorScheme
      showTooltip stackSeries marginTop marginBottom marginRight marginLeft legendOrientation h =
     (let colorScale = getScale ext colorScheme in
     (case getRowArray h data of None \<Rightarrow> None
      | Some elems \<Rightarrow>
     (case those (map (\<lambda>v. map_option objectKeys (getRow h v)) elems) of None \<Rightarrow> None
      | Some keys \<Rightarrow>
     (let (keysSets, h1) = alloc (StrSet []) h in
     (case forEach (\<lambda>el. forEach (\<lambda>k. setAdd_st keysSets k) el) keys h1 of None \<Rightarrow> None
      | Some h2 \<Rightarrow>
     (case getStrSet h2 keysSets of None \<Rightarrow> None
      | Some dimensions \<Rightarrow>
     (let yAxisAsCategories =
            (if invertBars then \<lparr>ax_type = Some ''category'', ax_show = Some seriesCategoriesShow\<rparr>
             else \<lparr>ax_type = None, ax_show = None\<rparr>);
          xAxisAsCategories =
            (if \<not> invertBars then \<lparr>ax_type = Some ''category'', ax_show = Some seriesCategoriesShow\<rparr>
             else \<lparr>ax_type = None, ax_show = None\<rparr>);
          axisEncoding =
            (if invertBars then \<lparr>enc_x = None, enc_y = Some cols\<rparr>
             else \<lparr>enc_x = Some cols, enc_y = None\<rparr>);
          stackSettings = (if stackSeries then Some ''totals'' else None);
          singleSeriesConfig =
            \<lparr>ssc_name = (), ssc_type = ''bar'', ssc_encode = axisEncoding,
             ssc_label = \<lparr>bl_show = seriesLabelsShow, bl_position = seriesLabelsPosition,
                          bl_formatter = labelFormatterStacked ext numberFormat seriesLabelsFormat\<rparr>,
             ssc_itemStyle = \<lparr>is_color = ''auto''\<rparr>,
             ssc_stack = stackSettings\<rparr>;
          (allSeriesConfigs, h3) = alloc (SeriesArray []) h2 in
     (case forEach
             (\<lambda>dim h.
                 if dim \<noteq> cols then
                   (let setValueAxisEncoding =
                          (if invertBars then (ssc_encode singleSeriesConfig)\<lparr>enc_x := Some dim\<rparr>
                           else (ssc_encode singleSeriesConfig)\<lparr>enc_y := Some dim\<rparr>)
                    in pushSeries_st allSeriesConfigs
                         \<lparr>bs_name = dim,
                          bs_type = ssc_type singleSeriesConfig,
                          bs_encode = setValueAxisEncoding,
                          bs_label = ssc_label singleSeriesConfig,
                          bs_itemStyle = \<lparr>is_color = colorOf colorScale dim\<rparr>,
                          bs_stack = ssc_stack singleSeriesConfig\<rparr> h)
                 else Some h)
             dimensions h3 of None \<Rightarrow> None
      | Some h4 \<Rightarrow>
     (let legendOptions = legendOrientationBuilder legendOrientation in
     (case getSeriesArray h4 allSeriesConfigs of None \<Rightarrow> None
      | Some series \<Rightarrow>
     (case getRowArray h4 data of None \<Rightarrow> None
      | Some sourceElems \<Rightarrow>
     (case those (map (getRow h4) sourceElems) of None \<Rightarrow> None
      | Some source \<Rightarrow>
        Some (\<lparr>sc_dataset = \<lparr>ds_dimensions = dimensions, ds_source = source\<rparr>,
          sc_legend = \<lparr>slg_show = showLegend, slg_orient = lo_orient legendOptions,
                       slg_left = lo_left legendOptions, slg_bottom = lo_bottom legendOptions,
                       slg_right = lo_right legendOptions, slg_top = lo_top legendOptions\<rparr>,
          sc_tooltip = \<lparr>stt_show = showTooltip,
                        stt_valueFormatter = (\<lambda>v. formatNumber ext numberFormat v)\<rparr>,
          sc_yAxis = yAxisAsCategories,
          sc_xAxis = xAxisAsCategories,
          sc_series = series,
          sc_grid = \<lparr>grid_top = marginTop, grid_bottom = marginBottom,
                     grid_right = marginRight, grid_left = marginLeft\<rparr>\<rparr>, h4)))))))))))))"


text \<open>Two stores that hold the same two rows, at different addresses and among other objects.\<close>

definition exampleRows :: "int row list" where
  "exampleRows = [[(''region'', JStr ''A''), (''sales'', JNum 10)],
                  [(''region'', JStr ''B''), (''sales'', JNum 20)]]"

definition exampleStore :: "int store" where
  "exampleStore =
     \<lparr>cells = (\<lambda>a. None)(0 \<mapsto> Row [(''region'', JStr ''A''), (''sales'', JNum 10)],
                          1 \<mapsto> Row [(''region'', JStr ''B''), (''sales'', JNum 20)],
                          2 \<mapsto> RowArray [0, 1]),
      nextAddr = 3\<rparr>"

definition otherStore :: "int store" where
  "otherStore =
     \<lparr>cells = (\<lambda>a. None)(0 \<mapsto> RowArray [2, 4],
                          1 \<mapsto> StrSet [''cost''],
                          2 \<mapsto> Row [(''region'', JStr ''A''), (''sales'', JNum 10)],
                          3 \<mapsto> NVArray [],
                          4 \<mapsto> Row [(''region'', JStr ''B''), (''sales'', JNum 20)]),
      nextAddr = 5\<rparr>"

section \<open>Facts about the set and array loops\<close>

lemma setAdd_set: "set (setAdd s k) = insert k (set s)"
  by (auto simp: setAdd_def)

lemma setAdd_distinct: "distinct s \<Longrightarrow> distinct (setAdd s k)"
  by (simp add: setAdd_def)

lemma fold_setAdd_set: "set (fold (\<lambda>k s. setAdd s k) el s) = set s \<union> set el"
  by (induction el arbitrary: s) (auto simp: setAdd_set)

lemma fold_setAdd_distinct: "distinct s \<Longrightarrow> distinct (fold (\<lambda>k s. setAdd s k) el s)"
  by (induction el arbitrary: s) (auto simp: setAdd_distinct)

lemma keysSets_set:
  "set (fold (\<lambda>el s. fold (\<lambda>k s. setAdd s k) el s) keys s) = set s \<union> (\<Union>el \<in> set keys. set el)"
  by (induction keys arbitrary: s) (auto simp: fold_setAdd_set)

lemma keysSets_distinct:
  "distinct s \<Longrightarrow> distinct (fold (\<lambda>el s. fold (\<lambda>k s. setAdd s k) el s) keys s)"
  by (induction keys arbitrary: s) (auto simp: fold_setAdd_distinct)

lemma fold_push_acc: "fold (\<lambda>k acc. acc @ [f k]) ks acc = acc @ map f ks"
  by (induction ks arbitrary: acc) auto

lemma fold_push: "fold (\<lambda>k acc. acc @ [f k]) ks = (\<lambda>acc. acc @ map f ks)"
  by (rule ext) (rule fold_push_acc)

lemma fold_push_all: "fold (\<lambda>d acc. acc @ g d) ds acc = acc @ concat (map g ds)"
  by (induction ds arbitrary: acc) auto

lemma length_concat_const: "length (concat (map (\<lambda>d. map (f d) ks) ds)) = length ds * length ks"
  by (induction ds) auto

section \<open>The pie transform emits one pair per row and observed key\<close>

lemma transformSeriesData_concat:
  "transformSeriesData data
     = concat (map (\<lambda>d. map (\<lambda>k. \<lparr>nv_name = k, nv_value = propertyGet d k\<rparr>)
                            (fold (\<lambda>el s. fold (\<lambda>k s. setAdd s k) el s) (map objectKeys data) []))
                   data)"
  unfolding transformSeriesData_def Let_def by (simp add: fold_push fold_push_all)

lemma buildPieChart_data:
  "map ps_data (pc_series (buildPieChart ext data chartTitle chartSubTitle showLegend showTitle outerRadius
        innerRadius donut numberFormat colorScheme showLabels labelsOutside labelLine labelPosition
        showTooltip highlight labelType legendVertical legendHorizontal legendOrientation
        marginTop marginBottom marginRight marginLeft)) = [transformSeriesData data]"
  by (simp add: buildPieChart_def Let_def)

text \<open>
  C1. For every sequence of rows the pie transform produces one series, and its data is, row
  after row, one pair \<open>{name: k, value: d[k]}\<close> for each key \<open>k\<close> of the Dimension Set (the keys
  of all rows, each once, the category column among them): (number of rows) times (size of
  the Dimension Set) pairs in all. The value \<open>d[k]\<close> is the read defined above: for a key the
  row does not have, the member of \<open>Object.prototype\<close> of that name, or \<open>undefined\<close>. The
  series data is what \<open>transformSeriesData\<close> returns.
\<close>

theorem buildPieChart_series_pairs:
  fixes ext :: "'n externals" and data :: "'n row list"
    and chartTitle chartSubTitle showLegend showTitle outerRadius innerRadius donut numberFormat
    colorScheme showLabels labelsOutside labelLine labelPosition showTooltip highlight labelType
    legendVertical legendHorizontal legendOrientation marginTop marginBottom marginRight marginLeft
  defines "pie \<equiv> buildPieChart ext data chartTitle chartSubTitle showLegend showTitle outerRadius
        innerRadius donut numberFormat colorScheme showLabels labelsOutside labelLine labelPosition
        showTooltip highlight labelType legendVertical legendHorizontal legendOrientation
        marginTop marginBottom marginRight marginLeft"
  shows "\<exists>ks. distinct ks \<and> set ks = dimensionSet data
      \<and> map ps_data (pc_series pie) =
          [concat (map (\<lambda>d. map (\<lambda>k. \<lparr>nv_name = k, nv_value = propertyGet d k\<rparr>) ks) data)]
      \<and> map (\<lambda>s. length (ps_data s)) (pc_series pie) = [length data * card (dimensionSet data)]
      \<and> map ps_data (pc_series pie) = [transformSeriesData data]"
proof -
  define ks where
    "ks = fold (\<lambda>el s. fold (\<lambda>k s. setAdd s k) el s) (map (objectKeys :: 'n row \<Rightarrow> _) data) []"
  let ?pairs = "concat (map (\<lambda>d. map (\<lambda>k. \<lparr>nv_name = k, nv_value = propertyGet d k\<rparr>) ks) data)"
  have d: "distinct ks"
    unfolding ks_def by (rule keysSets_distinct) simp
  have s: "set ks = dimensionSet data"
    unfolding ks_def by (simp add: keysSets_set dimensionSet_def)
  have e: "transformSeriesData data = ?pairs"
    unfolding ks_def by (rule transformSeriesData_concat)
  have p: "map ps_data (pc_series pie) = [transformSeriesData data]"
    unfolding pie_def by (rule buildPieChart_data)
  have "length ?pairs = length data * length ks"
    by (rule length_concat_const)
  also have "length ks = card (dimensionSet data)"
    using d s distinct_card [of ks] by simp
  finally have n: "length ?pairs = length data * card (dimensionSet data)" .
  have l: "map (\<lambda>s. length (ps_data s)) (pc_series pie)
      = [length data * card (dimensionSet data)]"
  proof -
    have "map (\<lambda>s. length (ps_data s)) (pc_series pie) = map length (map ps_data (pc_series pie))"
      by (simp add: comp_def)
    also have "\<dots> = [length data * card (dimensionSet data)]"
      unfolding p e using n by simp
    finally show ?thesis .
  qed
  have q: "map ps_data (pc_series pie) = [?pairs]"
    using p e by simp
  show ?thesis using d s q l p by (intro exI [where x = ks] conjI)
qed

text \<open>
  A key that one row has and another lacks: the second row of \<open>[{constructor: 1}, {a: 2}]\<close>
  gives the inherited member for \<open>constructor\<close>, and the first gives \<open>undefined\<close> for \<open>a\<close>.
\<close>

lemma transformSeriesData_missing_keys:
  "transformSeriesData [[(''constructor'', JNum (1::int))], [(''a'', JNum 2)]]
     = [\<lparr>nv_name = ''constructor'', nv_value = JNum 1\<rparr>,
        \<lparr>nv_name = ''a'', nv_value = JUndefined\<rparr>,
        \<lparr>nv_name = ''constructor'', nv_value = JMember ''constructor''\<rparr>,
        \<lparr>nv_name = ''a'', nv_value = JNum 2\<rparr>]"
  by (simp add: transformSeriesData_def Let_def objectKeys_def setAdd_def propertyGet_def
      objectPrototypeMembers_def)

section \<open>The bar transforms: dimensions and series\<close>

lemma fold_filter_push_acc:
  "fold (\<lambda>dim acc. if P dim then acc @ [f dim] else acc) ds acc = acc @ map f (filter P ds)"
  by (induction ds arbitrary: acc) auto

lemma length_filter_neq:
  assumes "distinct ds" and "set ds = D"
  shows "length (filter (\<lambda>d. d \<noteq> c) ds) = card (D - {c})"
proof -
  have "distinct (filter (\<lambda>d. d \<noteq> c) ds)"
    using assms(1) by simp
  then have "length (filter (\<lambda>d. d \<noteq> c) ds) = card (set (filter (\<lambda>d. d \<noteq> c) ds))"
    by (rule distinct_card [symmetric])
  also have "set (filter (\<lambda>d. d \<noteq> c) ds) = D - {c}"
    using assms(2) by auto
  finally show ?thesis .
qed

lemma finite_dimensionSet: "finite (dimensionSet data)"
  by (simp add: dimensionSet_def)

lemma card_without:
  "finite D \<Longrightarrow> card (D - {c}) = (if c \<in> D then card D - 1 else card D)"
  by simp

lemma bar_dimensions:
  "distinct (ds_dimensions (bc_dataset (buildEchartOptions ext data cols invertBars showLegend
      seriesLabelsShow seriesLabelsPosition seriesCategoriesShow numberFormat seriesLabelsFormat
      colorScheme showTooltip)))
   \<and> set (ds_dimensions (bc_dataset (buildEchartOptions ext data cols invertBars showLegend
      seriesLabelsShow seriesLabelsPosition seriesCategoriesShow numberFormat seriesLabelsFormat
      colorScheme showTooltip))) = dimensionSet data"
  by (simp add: buildEchartOptions_def Let_def keysSets_distinct keysSets_set dimensionSet_def)

lemma bar_series:
  "bc_series (buildEchartOptions ext data cols invertBars showLegend
      seriesLabelsShow seriesLabelsPosition seriesCategoriesShow numberFormat seriesLabelsFormat
      colorScheme showTooltip) =
   map (\<lambda>dim. \<lparr>bs_name = dim, bs_type = ''bar'',
                bs_encode = (if invertBars then \<lparr>enc_x = Some dim, enc_y = Some cols\<rparr>
                             else \<lparr>enc_x = Some cols, enc_y = Some dim\<rparr>),
                bs_label = \<lparr>bl_show = seriesLabelsShow, bl_position = seriesLabelsPosition,
                            bl_formatter = labelFormatter ext numberFormat seriesLabelsFormat\<rparr>,
                bs_itemStyle = \<lparr>is_color = colorOf (getScale ext colorScheme) dim\<rparr>,
                bs_stack = None\<rparr>)
       (filter (\<lambda>dim. dim \<noteq> cols)
          (ds_dimensions (bc_dataset (buildEchartOptions ext data cols invertBars showLegend
             seriesLabelsShow seriesLabelsPosition seriesCategoriesShow numberFormat
             seriesLabelsFormat colorScheme showTooltip))))"
  unfolding buildEchartOptions_def Let_def fold_filter_push_acc
  by (cases invertBars) simp_all

lemma stacked_dimensions:
  "distinct (ds_dimensions (sc_dataset (buildEchartOptionsStacked ext data cols invertBars
      showLegend seriesLabelsShow seriesLabelsPosition seriesCategoriesShow numberFormat
      seriesLabelsFormat colorScheme showTooltip stackSeries marginTop marginBottom marginRight
      marginLeft legendOrientation)))
   \<and> set (ds_dimensions (sc_dataset (buildEchartOptionsStacked ext data cols invertBars
      showLegend seriesLabelsShow seriesLabelsPosition seriesCategoriesShow numberFormat
      seriesLabelsFormat colorScheme showTooltip stackSeries marginTop marginBottom marginRight
      marginLeft legendOrientation))) = dimensionSet data"
  by (simp add: buildEchartOptionsStacked_def Let_def keysSets_distinct keysSets_set
      dimensionSet_def)

lemma stacked_series:
  "sc_series (buildEchartOptionsStacked ext data cols invertBars
      showLegend seriesLabelsShow seriesLabelsPosition seriesCategoriesShow numberFormat
      seriesLabelsFormat colorScheme showTooltip stackSeries marginTop marginBottom marginRight
      marginLeft legendOrientation) =
   map (\<lambda>dim. \<lparr>bs_name = dim, bs_type = ''bar'',
                bs_encode = (if invertBars then \<lparr>enc_x = Some dim, enc_y = Some cols\<rparr>
                             else \<lparr>enc_x = Some cols, enc_y = Some dim\<rparr>),
                bs_label = \<lparr>bl_show = seriesLabelsShow, bl_position = seriesLabelsPosition,
                            bl_formatter = labelFormatterStacked ext numberFormat seriesLabelsFormat\<rparr>,
                bs_itemStyle = \<lparr>is_color = colorOf (getScale ext colorScheme) dim\<rparr>,
                bs_stack = (if stackSeries then Some ''totals'' else None)\<rparr>)
       (filter (\<lambda>dim. dim \<noteq> cols)
          (ds_dimensions (sc_dataset (buildEchartOptionsStacked ext data cols invertBars
             showLegend seriesLabelsShow seriesLabelsPosition seriesCategoriesShow numberFormat
             seriesLabelsFormat colorScheme showTooltip stackSeries marginTop marginBottom
             marginRight marginLeft legendOrientation))))"
  unfolding buildEchartOptionsStacked_def Let_def fold_filter_push_acc
  by (cases invertBars) simp_all

lemma labelFormatterStacked_eq: "labelFormatterStacked = labelFormatter"
  by (intro ext) (simp add: labelFormatterStacked_def labelFormatter_def)

lemma stacked_dimensions_eq:
  "ds_dimensions (sc_dataset (buildEchartOptionsStacked ext data cols invertBars
      showLegend seriesLabelsShow seriesLabelsPosition seriesCategoriesShow numberFormat
      seriesLabelsFormat colorScheme showTooltip stackSeries marginTop marginBottom marginRight
      marginLeft legendOrientation)) =
   ds_dimensions (bc_dataset (buildEchartOptions ext data cols invertBars showLegend
      seriesLabelsShow seriesLabelsPosition seriesCategoriesShow numberFormat seriesLabelsFormat
      colorScheme showTooltip))"
  by (simp add: buildEchartOptionsStacked_def buildEchartOptions_def Let_def)

section \<open>One bar series per observed key other than the category column\<close>

text \<open>
  C2, as the code has it. For every sequence of rows and every category column \<open>cols\<close>, both
  bar transforms produce one series per dimension other than \<open>cols\<close>, in the order of the
  dimensions. The number of series is the size of the Dimension Set minus 1 when \<open>cols\<close> is
  an observed key, and the size of the Dimension Set when it is not (no row has it, or there
  is no row). The series names are pairwise distinct, and they are exactly the observed keys
  other than \<open>cols\<close>.
\<close>

theorem bar_series_names:
  fixes ext :: "'n externals" and data :: "'n row list"
    and cols invertBars showLegend seriesLabelsShow seriesLabelsPosition seriesCategoriesShow
    numberFormat seriesLabelsFormat colorScheme showTooltip
    stackSeries marginTop marginBottom marginRight marginLeft legendOrientation
  defines "plain \<equiv> buildEchartOptions ext data cols invertBars showLegend seriesLabelsShow
        seriesLabelsPosition seriesCategoriesShow numberFormat seriesLabelsFormat colorScheme
        showTooltip"
    and "stacked \<equiv> buildEchartOptionsStacked ext data cols invertBars showLegend seriesLabelsShow
        seriesLabelsPosition seriesCategoriesShow numberFormat seriesLabelsFormat colorScheme
        showTooltip stackSeries marginTop marginBottom marginRight marginLeft legendOrientation"
  shows "map bs_name (bc_series plain)
           = filter (\<lambda>dim. dim \<noteq> cols) (ds_dimensions (bc_dataset plain))
       \<and> map bs_name (sc_series stacked) = map bs_name (bc_series plain)
       \<and> length (sc_series stacked) = length (bc_series plain)
       \<and> length (bc_series plain)
           = (if cols \<in> dimensionSet data then card (dimensionSet data) - 1
              else card (dimensionSet data))
       \<and> distinct (map bs_name (bc_series plain))
       \<and> set (map bs_name (bc_series plain)) = dimensionSet data - {cols}"
proof -
  let ?ds = "ds_dimensions (bc_dataset plain)"
  have dims: "distinct ?ds" "set ?ds = dimensionSet data"
    unfolding plain_def using bar_dimensions by blast+
  have names: "map bs_name (bc_series plain) = filter (\<lambda>dim. dim \<noteq> cols) ?ds"
    unfolding plain_def by (subst bar_series) (simp add: comp_def)
  have snames: "map bs_name (sc_series stacked) = map bs_name (bc_series plain)"
    unfolding names unfolding plain_def stacked_def
    by (subst stacked_series) (simp add: comp_def stacked_dimensions_eq)
  have slen: "length (sc_series stacked) = length (bc_series plain)"
    using snames by (rule map_eq_imp_length_eq)
  have "length (bc_series plain) = length (map bs_name (bc_series plain))"
    by simp
  also have "\<dots> = card (dimensionSet data - {cols})"
    unfolding names using dims by (rule length_filter_neq)
  also have "\<dots> = (if cols \<in> dimensionSet data then card (dimensionSet data) - 1
        else card (dimensionSet data))"
    using finite_dimensionSet by (rule card_without)
  finally have len: "length (bc_series plain) = (if cols \<in> dimensionSet data
        then card (dimensionSet data) - 1 else card (dimensionSet data))" .
  have dist: "distinct (map bs_name (bc_series plain))"
    unfolding names using dims(1) by simp
  have obs: "set (map bs_name (bc_series plain)) = dimensionSet data - {cols}"
    unfolding names using dims(2) by auto
  show ?thesis using names snames slen len dist obs by blast
qed

text \<open>
  C2 as stated fails where \<open>cols\<close> is not a key of any row: one row \<open>{sales: 10}\<close> with
  \<open>cols = "region"\<close> gives one series, and the Dimension Set has one element.
\<close>

theorem bar_series_count_counterexample:
  "length (bc_series (buildEchartOptions exampleExt [[(''sales'', JNum 10)]] ''region'' False True
      False ''top'' True ''SMART_NUMBER'' ''default'' ''supersetColors'' True)) = 1
   \<and> card (dimensionSet [[(''sales'', JNum (10::int))]]) = 1
   \<and> length (bc_series (buildEchartOptions exampleExt [[(''sales'', JNum 10)]] ''region'' False True
      False ''top'' True ''SMART_NUMBER'' ''default'' ''supersetColors'' True))
     \<noteq> card (dimensionSet [[(''sales'', JNum (10::int))]]) - 1"
  by (simp add: buildEchartOptions_def Let_def setAdd_def objectKeys_def dimensionSet_def)

section \<open>The pie label formatter\<close>

lemma showInt_10: "showInt 10 = ''10''"
  by code_simp

lemma showInt_20: "showInt 20 = ''20''"
  by code_simp

text \<open>
  C3, as the code has it. The formatter appends \<open>%\<close> to \<open>params.percent\<close> itself. Applied to
  params with name \<open>"A"\<close>, value 10 and percent 20 (the number, which the language writes
  \<open>20\<close>), it returns \<open>"A"\<close> for \<open>key\<close>, the formatted value for \<open>value\<close>, \<open>"20%"\<close> for
  \<open>percent\<close>, \<open>"A: "\<close> and the formatted value for \<open>key_value\<close>, \<open>"A: 20%"\<close> for
  \<open>key_percent\<close>, \<open>"A: "\<close>, the formatted value and \<open>" (20%)"\<close> for \<open>key_value_percent\<close>, and
  \<open>"A"\<close> for every other label type. With the percent given as the text \<open>"20%"\<close> the
  \<open>percent\<close> label is \<open>"20%%"\<close>.
\<close>

theorem formatPieLabel_table:
  fixes ext :: "int externals"
  assumes "numberToString ext 20 = ''20''"
    and "labelType \<notin> set [''key'', ''value'', ''percent'', ''key_value'', ''key_percent'',
                              ''key_value_percent'']"
  shows "formatPieLabel ext \<lparr>p_name = JStr ''A'', p_value = JNum 10, p_percent = JNum 20\<rparr>
           numberFormat ''key'' = JStr ''A''
       \<and> formatPieLabel ext \<lparr>p_name = JStr ''A'', p_value = JNum 10, p_percent = JNum 20\<rparr>
           numberFormat ''value'' = JStr (formatNumber ext numberFormat (JNum 10))
       \<and> formatPieLabel ext \<lparr>p_name = JStr ''A'', p_value = JNum 10, p_percent = JNum 20\<rparr>
           numberFormat ''percent'' = JStr ''20%''
       \<and> formatPieLabel ext \<lparr>p_name = JStr ''A'', p_value = JNum 10, p_percent = JNum 20\<rparr>
           numberFormat ''key_value'' = JStr (''A: '' @ formatNumber ext numberFormat (JNum 10))
       \<and> formatPieLabel ext \<lparr>p_name = JStr ''A'', p_value = JNum 10, p_percent = JNum 20\<rparr>
           numberFormat ''key_percent'' = JStr ''A: 20%''
       \<and> formatPieLabel ext \<lparr>p_name = JStr ''A'', p_value = JNum 10, p_percent = JNum 20\<rparr>
           numberFormat ''key_value_percent''
           = JStr (''A: '' @ formatNumber ext numberFormat (JNum 10) @ '' (20%)'')
       \<and> formatPieLabel ext \<lparr>p_name = JStr ''A'', p_value = JNum 10, p_percent = JNum 20\<rparr>
           numberFormat labelType = JStr ''A''
       \<and> formatPieLabel ext \<lparr>p_name = JStr ''A'', p_value = JNum 10, p_percent = JStr ''20%''\<rparr>
           numberFormat ''percent'' = JStr ''20%%''"
  using assms by (simp add: formatPieLabel_def Let_def)

text \<open>The table at the example instance, with the label type \<open>bogus\<close>.\<close>

theorem formatPieLabel_table_witness:
  "numberToString exampleExt 20 = ''20''
   \<and> ''bogus'' \<notin> set [''key'', ''value'', ''percent'', ''key_value'', ''key_percent'',
                          ''key_value_percent'']
   \<and> formatPieLabel exampleExt \<lparr>p_name = JStr ''A'', p_value = JNum 10, p_percent = JNum 20\<rparr>
         ''SMART_NUMBER'' ''key_value_percent'' = JStr ''A: 10 (20%)''
   \<and> formatPieLabel exampleExt \<lparr>p_name = JStr ''A'', p_value = JNum 10, p_percent = JNum 20\<rparr>
         ''SMART_NUMBER'' ''bogus'' = JStr ''A''"
proof -
  have h1: "numberToString exampleExt 20 = ''20''"
    by (simp add: exampleExt_def showInt_20)
  have h2: "''bogus'' \<notin> set [''key'', ''value'', ''percent'', ''key_value'', ''key_percent'',
                          ''key_value_percent'']"
    by simp
  have f: "formatNumber exampleExt ''SMART_NUMBER'' (JNum 10) = ''10''"
    by (simp add: exampleExt_def showInt_10)
  show ?thesis
    using formatPieLabel_table [OF h1 h2, of "''SMART_NUMBER''"] h1 h2 by (simp add: f)
qed

text \<open>
  C3 as stated fails: with \<open>percent\<close> given as the text \<open>"20%"\<close>, the \<open>percent\<close> label is not
  \<open>"20%"\<close>, since the formatter appends a second \<open>%\<close>.
\<close>

theorem formatPieLabel_percent_counterexample:
  "formatPieLabel exampleExt \<lparr>p_name = JStr ''A'', p_value = JNum 10, p_percent = JStr ''20%''\<rparr>
     ''SMART_NUMBER'' ''percent'' \<noteq> JStr ''20%''"
  by (simp add: formatPieLabel_def Let_def)

section \<open>The default cases of the label formatters\<close>

text \<open>
  C4, as the code has it. For every label type outside its six cases the pie formatter
  returns the category name. For every series label format outside its three cases the bar
  formatter (of either bar transform) returns the formatted value of the bar, not the
  category name.
\<close>

theorem label_fallbacks:
  "(labelType \<notin> set [''key'', ''value'', ''percent'', ''key_value'', ''key_value_percent'',
                       ''key_percent'']
      \<longrightarrow> formatPieLabel ext params numberFormat labelType = p_name params)
   \<and> (seriesLabelsFormat \<notin> set [''seriesNameCategoryValue'', ''seriesNameValue'', ''categoryValue'']
      \<longrightarrow> labelFormatter ext numberFormat seriesLabelsFormat bparams
            = formatNumber ext numberFormat
                (propertyGet (bp_value bparams) (toString ext (bp_seriesName bparams)))
        \<and> labelFormatterStacked ext numberFormat seriesLabelsFormat bparams
            = formatNumber ext numberFormat
                (propertyGet (bp_value bparams) (toString ext (bp_seriesName bparams))))"
  by (simp add: formatPieLabel_def labelFormatter_def labelFormatterStacked_def Let_def)

text \<open>Both default cases at the example instance.\<close>

theorem label_fallbacks_witness:
  "''bogus'' \<notin> set [''key'', ''value'', ''percent'', ''key_value'', ''key_value_percent'',
                       ''key_percent'']
   \<and> ''bogus'' \<notin> set [''seriesNameCategoryValue'', ''seriesNameValue'', ''categoryValue'']
   \<and> formatPieLabel exampleExt \<lparr>p_name = JStr ''A'', p_value = JNum 10, p_percent = JNum 20\<rparr>
         ''SMART_NUMBER'' ''bogus'' = JStr ''A''
   \<and> labelFormatter exampleExt ''SMART_NUMBER'' ''bogus''
         \<lparr>bp_seriesName = JStr ''sales'', bp_name = JStr ''A'',
          bp_value = [(''region'', JStr ''A''), (''sales'', JNum 10)]\<rparr> = ''10''
   \<and> labelFormatterStacked exampleExt ''SMART_NUMBER'' ''bogus''
         \<lparr>bp_seriesName = JStr ''sales'', bp_name = JStr ''A'',
          bp_value = [(''region'', JStr ''A''), (''sales'', JNum 10)]\<rparr> = ''10''"
  using label_fallbacks [of "''bogus''" exampleExt
      "\<lparr>p_name = JStr ''A'', p_value = JNum 10, p_percent = JNum 20\<rparr>" "''SMART_NUMBER''"
      "''bogus''"
      "\<lparr>bp_seriesName = JStr ''sales'', bp_name = JStr ''A'',
        bp_value = [(''region'', JStr ''A''), (''sales'', JNum 10)]\<rparr>"]
  by (simp add: propertyGet_def exampleExt_def showInt_10)

text \<open>
  C4 as stated fails for the bar formatter: for the bar of series \<open>sales\<close> in the row
  \<open>{region: "A", sales: 10}\<close> and the format \<open>bogus\<close> it returns \<open>"10"\<close>, and the category
  name is \<open>"A"\<close>.
\<close>

theorem labelFormatter_fallback_counterexample:
  "labelFormatter exampleExt ''SMART_NUMBER'' ''bogus''
         \<lparr>bp_seriesName = JStr ''sales'', bp_name = JStr ''A'',
          bp_value = [(''region'', JStr ''A''), (''sales'', JNum 10)]\<rparr> = ''10''
   \<and> labelFormatter exampleExt ''SMART_NUMBER'' ''bogus''
         \<lparr>bp_seriesName = JStr ''sales'', bp_name = JStr ''A'',
          bp_value = [(''region'', JStr ''A''), (''sales'', JNum 10)]\<rparr>
       \<noteq> toString exampleExt (JStr ''A'')"
  by (simp add: labelFormatter_def Let_def propertyGet_def exampleExt_def showInt_10)

section \<open>The legend orientation\<close>

text \<open>
  C5. The legend options depend on the orientation alone: \<open>top\<close> gives a horizontal legend
  with \<open>right\<close> and \<open>top\<close> 0, \<open>bottom\<close> a horizontal legend with \<open>bottom\<close> 0, \<open>left\<close> a vertical
  legend with \<open>left\<close> 0, \<open>right\<close> a vertical legend with \<open>right\<close> and \<open>top\<close> 0, and every other
  value gives what \<open>right\<close> gives.
\<close>

theorem legendOrientationBuilder_table:
  "legendOrientationBuilder ''top''
     = \<lparr>lo_orient = ''horizontal'', lo_left = None, lo_bottom = None,
        lo_right = Some 0, lo_top = Some 0\<rparr>
   \<and> legendOrientationBuilder ''bottom''
     = \<lparr>lo_orient = ''horizontal'', lo_left = None, lo_bottom = Some 0,
        lo_right = None, lo_top = None\<rparr>
   \<and> legendOrientationBuilder ''left''
     = \<lparr>lo_orient = ''vertical'', lo_left = Some 0, lo_bottom = None,
        lo_right = None, lo_top = None\<rparr>
   \<and> legendOrientationBuilder ''right''
     = \<lparr>lo_orient = ''vertical'', lo_left = None, lo_bottom = None,
        lo_right = Some 0, lo_top = Some 0\<rparr>
   \<and> (legendOrientation \<notin> set [''top'', ''bottom'', ''left'', ''right'']
        \<longrightarrow> legendOrientationBuilder legendOrientation = legendOrientationBuilder ''right'')"
  by (simp add: legendOrientationBuilder_def Let_def)

text \<open>The orientation \<open>center\<close> is none of the four and gives the options of \<open>right\<close>.\<close>

theorem legendOrientationBuilder_table_witness:
  "''center'' \<notin> set [''top'', ''bottom'', ''left'', ''right'']
   \<and> legendOrientationBuilder ''center''
     = \<lparr>lo_orient = ''vertical'', lo_left = None, lo_bottom = None,
        lo_right = Some 0, lo_top = Some 0\<rparr>"
  using legendOrientationBuilder_table [of "''center''"] by simp

section \<open>The categorical axis\<close>

text \<open>
  C6. Without \<open>invertBars\<close> both bar transforms make the x axis the categorical one
  (\<open>xAxis = {type: 'category', show: seriesCategoriesShow}\<close>, \<open>yAxis = {}\<close>) and every series
  encodes x as the category column \<open>cols\<close> and y as its own dimension; with \<open>invertBars\<close> the
  two axes change roles. The categorical axis shows exactly when \<open>seriesCategoriesShow\<close>
  says so.
\<close>

theorem bar_axis_orientation:
  fixes ext :: "'n externals" and data :: "'n row list"
    and cols showLegend seriesLabelsShow seriesLabelsPosition seriesCategoriesShow
    numberFormat seriesLabelsFormat colorScheme showTooltip
    stackSeries marginTop marginBottom marginRight marginLeft legendOrientation
  defines "plain \<equiv> \<lambda>invertBars. buildEchartOptions ext data cols invertBars showLegend seriesLabelsShow
        seriesLabelsPosition seriesCategoriesShow numberFormat seriesLabelsFormat colorScheme
        showTooltip"
    and "stacked \<equiv> \<lambda>invertBars. buildEchartOptionsStacked ext data cols invertBars showLegend seriesLabelsShow
        seriesLabelsPosition seriesCategoriesShow numberFormat seriesLabelsFormat colorScheme
        showTooltip stackSeries marginTop marginBottom marginRight marginLeft legendOrientation"
    and "categorical \<equiv> \<lparr>ax_type = Some ''category'', ax_show = Some seriesCategoriesShow\<rparr>"
    and "unset \<equiv> \<lparr>ax_type = None, ax_show = None\<rparr>"
  shows "bc_xAxis (plain False) = categorical \<and> bc_yAxis (plain False) = unset
       \<and> list_all (\<lambda>s. bs_encode s = \<lparr>enc_x = Some cols, enc_y = Some (bs_name s)\<rparr>)
            (bc_series (plain False))
       \<and> bc_yAxis (plain True) = categorical \<and> bc_xAxis (plain True) = unset
       \<and> list_all (\<lambda>s. bs_encode s = \<lparr>enc_x = Some (bs_name s), enc_y = Some cols\<rparr>)
            (bc_series (plain True))
       \<and> sc_xAxis (stacked False) = categorical \<and> sc_yAxis (stacked False) = unset
       \<and> list_all (\<lambda>s. bs_encode s = \<lparr>enc_x = Some cols, enc_y = Some (bs_name s)\<rparr>)
            (sc_series (stacked False))
       \<and> sc_yAxis (stacked True) = categorical \<and> sc_xAxis (stacked True) = unset
       \<and> list_all (\<lambda>s. bs_encode s = \<lparr>enc_x = Some (bs_name s), enc_y = Some cols\<rparr>)
            (sc_series (stacked True))"
proof -
  have ax: "bc_xAxis (plain False) = categorical" "bc_yAxis (plain False) = unset"
    "bc_yAxis (plain True) = categorical" "bc_xAxis (plain True) = unset"
    by (simp_all add: plain_def categorical_def unset_def buildEchartOptions_def Let_def)
  have sax: "sc_xAxis (stacked False) = categorical" "sc_yAxis (stacked False) = unset"
    "sc_yAxis (stacked True) = categorical" "sc_xAxis (stacked True) = unset"
    by (simp_all add: stacked_def categorical_def unset_def buildEchartOptionsStacked_def Let_def)
  have enc: "list_all (\<lambda>s. bs_encode s = \<lparr>enc_x = Some cols, enc_y = Some (bs_name s)\<rparr>)
       (bc_series (plain False))"
    "list_all (\<lambda>s. bs_encode s = \<lparr>enc_x = Some (bs_name s), enc_y = Some cols\<rparr>)
       (bc_series (plain True))"
    unfolding plain_def by (subst bar_series, simp add: list_all_iff)+
  have senc: "list_all (\<lambda>s. bs_encode s = \<lparr>enc_x = Some cols, enc_y = Some (bs_name s)\<rparr>)
       (sc_series (stacked False))"
    "list_all (\<lambda>s. bs_encode s = \<lparr>enc_x = Some (bs_name s), enc_y = Some cols\<rparr>)
       (sc_series (stacked True))"
    unfolding stacked_def by (subst stacked_series, simp add: list_all_iff)+
  show ?thesis
    using ax sax enc senc by blast
qed

section \<open>Two rows, one metric\<close>

text \<open>
  C7. For the rows \<open>[{region: "A", sales: 10}, {region: "B", sales: 20}]\<close> with
  \<open>cols = "region"\<close> and \<open>invertBars = false\<close> the bar transform produces exactly one series,
  named \<open>sales\<close>; the dataset's source is the two rows in their order; and the x axis has the
  type \<open>category\<close>.
\<close>

theorem bar_end_to_end:
  fixes ext :: "int externals"
    and showLegend seriesLabelsShow seriesLabelsPosition seriesCategoriesShow numberFormat
    seriesLabelsFormat colorScheme showTooltip
  defines "rows \<equiv> [[(''region'', JStr ''A''), (''sales'', JNum 10)],
                    [(''region'', JStr ''B''), (''sales'', JNum 20)]]"
  defines "spec \<equiv> buildEchartOptions ext rows ''region'' False showLegend seriesLabelsShow
        seriesLabelsPosition seriesCategoriesShow numberFormat seriesLabelsFormat colorScheme
        showTooltip"
  shows "length (bc_series spec) = 1 \<and> map bs_name (bc_series spec) = [''sales'']
       \<and> ds_source (bc_dataset spec) = rows
       \<and> ax_type (bc_xAxis spec) = Some ''category''"
  by (simp add: spec_def rows_def buildEchartOptions_def Let_def setAdd_def objectKeys_def)

section \<open>The radius of the pie\<close>

text \<open>
  C8. For all numbers \<open>innerRadius\<close> and \<open>outerRadius\<close> the radius of the pie series is the
  array of \<open>innerRadius + "%"\<close> and \<open>outerRadius + "%"\<close> when \<open>donut\<close> is true, and the single
  string \<open>outerRadius + "%"\<close> when it is false.
\<close>

theorem buildPieChart_radius:
  fixes ext :: "'n externals" and data :: "'n row list"
    and chartTitle chartSubTitle showLegend showTitle outerRadius innerRadius numberFormat
    colorScheme showLabels labelsOutside labelLine labelPosition showTooltip highlight labelType
    legendVertical legendHorizontal legendOrientation marginTop marginBottom marginRight marginLeft
  defines "pie \<equiv> \<lambda>donut. buildPieChart ext data chartTitle chartSubTitle showLegend showTitle outerRadius
        innerRadius donut numberFormat colorScheme showLabels labelsOutside labelLine labelPosition
        showTooltip highlight labelType legendVertical legendHorizontal legendOrientation
        marginTop marginBottom marginRight marginLeft"
  shows "map ps_radius (pc_series (pie True))
           = [RadiusArray [numberToString ext innerRadius @ ''%'',
                           numberToString ext outerRadius @ ''%'']]
       \<and> map ps_radius (pc_series (pie False))
           = [RadiusScalar (numberToString ext outerRadius @ ''%'')]"
  by (simp add: pie_def buildPieChart_def Let_def)

text \<open>The control panel's defaults, 50 and 70, at the example instance.\<close>

lemma pie_radius_at_50_70:
  "map ps_radius (pc_series (buildPieChart exampleExt [] '''' '''' True True 70 50 True
      ''SMART_NUMBER'' ''supersetColors'' True True True ''outside'' True True ''key_value''
      ''top'' ''right'' ''vertical'' ''5%'' ''5%'' ''5%'' ''5%'')) = [RadiusArray [''50%'', ''70%'']]"
proof -
  have "showInt 50 = ''50''" "showInt 70 = ''70''" by code_simp+
  then show ?thesis
    by (simp add: buildPieChart_def Let_def exampleExt_def)
qed

section \<open>The two bar transforms agree\<close>

text \<open>
  C10. The two bar transforms produce the same dataset (dimensions and source rows), the
  same x axis and the same y axis; without \<open>stackSeries\<close> the same series, field by field;
  with \<open>stackSeries\<close> the series of the richer transform are those of the plain one with
  \<open>stack = 'totals'\<close> added to each.
\<close>

theorem bar_variants_agree:
  fixes ext :: "'n externals" and data :: "'n row list"
    and cols invertBars showLegend seriesLabelsShow seriesLabelsPosition seriesCategoriesShow
    numberFormat seriesLabelsFormat colorScheme showTooltip
    marginTop marginBottom marginRight marginLeft legendOrientation
  defines "plain \<equiv> buildEchartOptions ext data cols invertBars showLegend seriesLabelsShow
        seriesLabelsPosition seriesCategoriesShow numberFormat seriesLabelsFormat colorScheme
        showTooltip"
    and "stacked \<equiv> \<lambda>stackSeries. buildEchartOptionsStacked ext data cols invertBars showLegend seriesLabelsShow
        seriesLabelsPosition seriesCategoriesShow numberFormat seriesLabelsFormat colorScheme
        showTooltip stackSeries marginTop marginBottom marginRight marginLeft legendOrientation"
  shows "sc_dataset (stacked stackSeries) = bc_dataset plain
       \<and> sc_xAxis (stacked stackSeries) = bc_xAxis plain
       \<and> sc_yAxis (stacked stackSeries) = bc_yAxis plain
       \<and> sc_series (stacked False) = bc_series plain
       \<and> sc_series (stacked True) = map (\<lambda>s. s\<lparr>bs_stack := Some ''totals''\<rparr>) (bc_series plain)"
proof -
  have d: "sc_dataset (stacked stackSeries) = bc_dataset plain"
    by (simp add: plain_def stacked_def buildEchartOptionsStacked_def buildEchartOptions_def
        Let_def)
  have x: "sc_xAxis (stacked stackSeries) = bc_xAxis plain"
    by (simp add: plain_def stacked_def buildEchartOptionsStacked_def buildEchartOptions_def
        Let_def)
  have y: "sc_yAxis (stacked stackSeries) = bc_yAxis plain"
    by (simp add: plain_def stacked_def buildEchartOptionsStacked_def buildEchartOptions_def
        Let_def)
  have s0: "sc_series (stacked False) = bc_series plain"
    unfolding plain_def stacked_def
    by (subst stacked_series, subst bar_series)
      (simp add: stacked_dimensions_eq labelFormatterStacked_eq)
  have s1: "sc_series (stacked True)
      = map (\<lambda>s. s\<lparr>bs_stack := Some ''totals''\<rparr>) (bc_series plain)"
    unfolding plain_def stacked_def
    by (subst stacked_series, subst bar_series)
      (simp add: stacked_dimensions_eq labelFormatterStacked_eq comp_def)
  show ?thesis using d x y s0 s1 by blast
qed

section \<open>The loops over the store\<close>

lemma store_cells_idem: "cells h a = Some c \<Longrightarrow> h\<lparr>cells := (cells h)(a \<mapsto> c)\<rparr> = h"
  by (simp add: fun_upd_idem)

lemma forEach_setAdd:
  "getStrSet h s = Some xs \<Longrightarrow>
   forEach (\<lambda>k. setAdd_st s k) el h
     = Some (h\<lparr>cells := (cells h)(s \<mapsto> StrSet (fold (\<lambda>k s. setAdd s k) el xs))\<rparr>)"
proof (induction el arbitrary: h xs)
  case Nil
  then have "cells h s = Some (StrSet xs)"
    by (auto simp: getStrSet_def split: option.splits cell.splits)
  then have "h\<lparr>cells := (cells h)(s \<mapsto> StrSet xs)\<rparr> = h"
    by (rule store_cells_idem)
  then show ?case by (simp only: forEach.simps fold_simps id_apply)
next
  case (Cons k el)
  let ?h1 = "h\<lparr>cells := (cells h)(s \<mapsto> StrSet (setAdd xs k))\<rparr>"
  have "getStrSet ?h1 s = Some (setAdd xs k)"
    by (simp add: getStrSet_def)
  from Cons.IH [OF this] Cons.prems show ?case
    by (simp add: setAdd_st_def cong: if_cong)
qed

lemma forEach_keys:
  "getStrSet h s = Some xs \<Longrightarrow>
   forEach (\<lambda>el. forEach (\<lambda>k. setAdd_st s k) el) keys h
     = Some (h\<lparr>cells := (cells h)(s \<mapsto>
          StrSet (fold (\<lambda>el s. fold (\<lambda>k s. setAdd s k) el s) keys xs))\<rparr>)"
proof (induction keys arbitrary: h xs)
  case Nil
  then have "cells h s = Some (StrSet xs)"
    by (auto simp: getStrSet_def split: option.splits cell.splits)
  then have "h\<lparr>cells := (cells h)(s \<mapsto> StrSet xs)\<rparr> = h"
    by (rule store_cells_idem)
  then show ?case by (simp only: forEach.simps fold_simps id_apply)
next
  case (Cons el keys)
  let ?h1 = "h\<lparr>cells := (cells h)(s \<mapsto> StrSet (fold (\<lambda>k s. setAdd s k) el xs))\<rparr>"
  have "getStrSet ?h1 s = Some (fold (\<lambda>k s. setAdd s k) el xs)"
    by (simp add: getStrSet_def)
  from Cons.IH [OF this] forEach_setAdd [OF Cons.prems, of el] show ?case
    by (simp cong: if_cong)
qed


lemma forEach_push_row:
  assumes "getNVArray h out = Some acc" and "getRow h d = Some row"
  shows "forEach (\<lambda>k h. case getRow h d of None \<Rightarrow> None
                    | Some row \<Rightarrow>
                        pushNV_st out \<lparr>nv_name = k, nv_value = propertyGet row k\<rparr> h) ks h
     = Some (h\<lparr>cells := (cells h)(out \<mapsto>
          NVArray (acc @ map (\<lambda>k. \<lparr>nv_name = k, nv_value = propertyGet row k\<rparr>) ks))\<rparr>)"
  using assms
proof (induction ks arbitrary: h acc)
  case Nil
  then have "cells h out = Some (NVArray acc)"
    by (auto simp: getNVArray_def split: option.splits cell.splits)
  then have "h\<lparr>cells := (cells h)(out \<mapsto> NVArray acc)\<rparr> = h"
    by (rule store_cells_idem)
  then show ?case by (simp only: forEach.simps list.map append_Nil2)
next
  case (Cons k ks)
  let ?x = "\<lparr>nv_name = k, nv_value = propertyGet row k\<rparr>"
  let ?h1 = "h\<lparr>cells := (cells h)(out \<mapsto> NVArray (acc @ [?x]))\<rparr>"
  have ne: "d \<noteq> out"
    using Cons.prems by (auto simp: getNVArray_def getRow_def split: option.splits cell.splits)
  have a: "getNVArray ?h1 out = Some (acc @ [?x])"
    by (simp add: getNVArray_def)
  have r: "getRow ?h1 d = Some row"
    using Cons.prems(2) ne by (simp add: getRow_def)
  from Cons.IH [OF a r] Cons.prems show ?case
    by (simp add: pushNV_st_def cong: if_cong)
qed

lemma forEach_push_rows:
  assumes "getNVArray h out = Some acc" and "getStrSet h s = Some ks"
    and "map (getRow h) elems = map Some rows"
  shows "forEach (\<lambda>d h. case getStrSet h s of None \<Rightarrow> None
                    | Some ks \<Rightarrow>
                        forEach (\<lambda>k h. case getRow h d of None \<Rightarrow> None
                                   | Some row \<Rightarrow>
                                       pushNV_st out
                                         \<lparr>nv_name = k, nv_value = propertyGet row k\<rparr> h)
                                ks h)
                 elems h
     = Some (h\<lparr>cells := (cells h)(out \<mapsto>
          NVArray (acc @ concat (map (\<lambda>row. map (\<lambda>k. \<lparr>nv_name = k,
                                                        nv_value = propertyGet row k\<rparr>) ks)
                                     rows)))\<rparr>)"
  using assms
proof (induction elems arbitrary: h acc rows)
  case Nil
  then have "cells h out = Some (NVArray acc)" and "rows = []"
    by (auto simp: getNVArray_def split: option.splits cell.splits)
  moreover from this have "h\<lparr>cells := (cells h)(out \<mapsto> NVArray acc)\<rparr> = h"
    by (simp only: store_cells_idem)
  ultimately show ?case by (simp only: forEach.simps list.map concat.simps append_Nil2)
next
  case (Cons d elems)
  from Cons.prems(3) obtain row rest where rows: "rows = row # rest"
    and row: "getRow h d = Some row" and rest: "map (getRow h) elems = map Some rest"
    by (cases rows) auto
  let ?new = "map (\<lambda>k. \<lparr>nv_name = k, nv_value = propertyGet row k\<rparr>) ks"
  let ?h1 = "h\<lparr>cells := (cells h)(out \<mapsto> NVArray (acc @ ?new))\<rparr>"
  have ne: "s \<noteq> out"
    using Cons.prems(1,2)
    by (auto simp: getNVArray_def getStrSet_def split: option.splits cell.splits)
  have notin: "\<And>e r. getRow h e = Some r \<Longrightarrow> e \<noteq> out"
    using Cons.prems(1) by (auto simp: getNVArray_def getRow_def split: option.splits cell.splits)
  have step: "forEach (\<lambda>k h. case getRow h d of None \<Rightarrow> None
                    | Some row \<Rightarrow>
                        pushNV_st out \<lparr>nv_name = k, nv_value = propertyGet row k\<rparr> h) ks h
     = Some ?h1"
    using Cons.prems(1) row by (rule forEach_push_row)
  have a: "getNVArray ?h1 out = Some (acc @ ?new)"
    by (simp add: getNVArray_def)
  have b: "getStrSet ?h1 s = Some ks"
    using Cons.prems(2) ne by (simp add: getStrSet_def)
  have c: "map (getRow ?h1) elems = map Some rest"
  proof -
    have "map (getRow ?h1) elems = map (getRow h) elems"
    proof (rule map_cong [OF refl])
      fix e assume "e \<in> set elems"
      with rest obtain r where "getRow h e = Some r"
        by (metis (no_types, opaque_lifting) in_set_conv_nth length_map nth_map)
      then have "e \<noteq> out" by (rule notin)
      then show "getRow ?h1 e = getRow h e" by (simp add: getRow_def)
    qed
    with rest show ?thesis by simp
  qed
  from Cons.IH [OF a b c] step Cons.prems(2) rows show ?case
    by (simp cong: if_cong)
qed

lemma those_keys:
  "map (getRow h) elems = map Some rows \<Longrightarrow>
   those (map (\<lambda>v. map_option objectKeys (getRow h v)) elems) = Some (map objectKeys rows)"
proof (induction elems arbitrary: rows)
  case Nil
  then show ?case by simp
next
  case (Cons d elems)
  then obtain row rest where "rows = row # rest" "getRow h d = Some row"
    "map (getRow h) elems = map Some rest"
    by (cases rows) auto
  with Cons.IH [of rest] show ?case by simp
qed

lemma transformSeriesData_st_run:
  assumes "holdsRows h data rows"
  shows "transformSeriesData_st data h
     = Some (Suc (nextAddr h),
         h\<lparr>cells := (cells h)
              (nextAddr h \<mapsto> StrSet (fold (\<lambda>el s. fold (\<lambda>k s. setAdd s k) el s)
                                          (map objectKeys rows) []),
               Suc (nextAddr h) \<mapsto> NVArray (transformSeriesData rows)),
           nextAddr := Suc (Suc (nextAddr h))\<rparr>)"
proof -
  from assms obtain elems where lt: "data < nextAddr h" and arr: "getRowArray h data = Some elems"
    and below: "list_all (\<lambda>v. v < nextAddr h) elems"
    and rows: "map (getRow h) elems = map Some rows"
    by (auto simp: holdsRows_def split: option.splits)
  let ?ks = "fold (\<lambda>el s. fold (\<lambda>k s. setAdd s k) el s) (map objectKeys rows) []"
  let ?s = "nextAddr h"
  let ?out = "Suc (nextAddr h)"
  let ?h1 = "h\<lparr>cells := (cells h)(?s \<mapsto> StrSet []), nextAddr := Suc ?s\<rparr>"
  let ?h2 = "?h1\<lparr>cells := (cells ?h1)(?s \<mapsto> StrSet ?ks)\<rparr>"
  let ?h3 = "?h2\<lparr>cells := (cells ?h2)(?out \<mapsto> NVArray []), nextAddr := Suc ?out\<rparr>"
  have keys: "those (map (\<lambda>v. map_option objectKeys (getRow h v)) elems)
      = Some (map objectKeys rows)"
    using rows by (rule those_keys)
  have "getStrSet ?h1 ?s = Some []"
    by (simp add: getStrSet_def)
  then have loop1: "forEach (\<lambda>el. forEach (\<lambda>k. setAdd_st ?s k) el) (map objectKeys rows) ?h1
      = Some ?h2"
    by (rule forEach_keys)
  have a: "getNVArray ?h3 ?out = Some []"
    by (simp add: getNVArray_def)
  have b: "getStrSet ?h3 ?s = Some ?ks"
    by (simp add: getStrSet_def)
  have c: "map (getRow ?h3) elems = map Some rows"
  proof -
    have "map (getRow ?h3) elems = map (getRow h) elems"
    proof (rule map_cong [OF refl])
      fix e assume "e \<in> set elems"
      with below have "e < nextAddr h" by (simp add: list_all_iff)
      then show "getRow ?h3 e = getRow h e" by (simp add: getRow_def)
    qed
    with rows show ?thesis by simp
  qed
  have loop2: "forEach (\<lambda>d h. case getStrSet h ?s of None \<Rightarrow> None
                    | Some ks \<Rightarrow>
                        forEach (\<lambda>k h. case getRow h d of None \<Rightarrow> None
                                   | Some row \<Rightarrow>
                                       pushNV_st ?out
                                         \<lparr>nv_name = k, nv_value = propertyGet row k\<rparr> h)
                                ks h)
                 elems ?h3
     = Some (?h3\<lparr>cells := (cells ?h3)(?out \<mapsto>
          NVArray ([] @ concat (map (\<lambda>row. map (\<lambda>k. \<lparr>nv_name = k,
                                                        nv_value = propertyGet row k\<rparr>) ?ks)
                                     rows)))\<rparr>)"
    using a b c by (rule forEach_push_rows)
  have pure: "transformSeriesData rows
      = concat (map (\<lambda>row. map (\<lambda>k. \<lparr>nv_name = k, nv_value = propertyGet row k\<rparr>) ?ks) rows)"
    unfolding transformSeriesData_def Let_def by (simp add: fold_push fold_push_all)
  have al1: "alloc (StrSet []) h = (?s, ?h1)"
    by (simp add: alloc_def)
  have al2: "alloc (NVArray []) ?h2 = (?out, ?h3)"
    by (simp add: alloc_def)
  have arr3: "getRowArray ?h3 data = Some elems"
    using arr lt by (simp add: getRowArray_def)
  have "transformSeriesData_st data h
      = Some (?out, ?h3\<lparr>cells := (cells ?h3)(?out \<mapsto>
          NVArray ([] @ concat (map (\<lambda>row. map (\<lambda>k. \<lparr>nv_name = k,
                                                        nv_value = propertyGet row k\<rparr>) ?ks)
                                     rows)))\<rparr>)"
    unfolding transformSeriesData_st_def
    by (simp only: arr keys al1 al2 arr3 loop1 loop2 option.case prod.case Let_def)
  then show ?thesis
    by (simp add: pure cong: if_cong)
qed


lemma forEach_push_series:
  assumes "getSeriesArray h out = Some acc"
  shows "forEach (\<lambda>dim h. if P dim then pushSeries_st out (f dim) h else Some h) dims h
     = Some (h\<lparr>cells := (cells h)(out \<mapsto> SeriesArray (acc @ map f (filter P dims)))\<rparr>)"
  using assms
proof (induction dims arbitrary: h acc)
  case Nil
  then have "cells h out = Some (SeriesArray acc)"
    by (auto simp: getSeriesArray_def split: option.splits cell.splits)
  then have "h\<lparr>cells := (cells h)(out \<mapsto> SeriesArray acc)\<rparr> = h"
    by (rule store_cells_idem)
  then show ?case by (simp only: forEach.simps list.map filter.simps append_Nil2)
next
  case (Cons dim dims)
  show ?case
  proof (cases "P dim")
    case True
    let ?h1 = "h\<lparr>cells := (cells h)(out \<mapsto> SeriesArray (acc @ [f dim]))\<rparr>"
    have "getSeriesArray ?h1 out = Some (acc @ [f dim])"
      by (simp add: getSeriesArray_def)
    from Cons.IH [OF this] Cons.prems True show ?thesis
      by (simp add: pushSeries_st_def cong: if_cong)
  next
    case False
    with Cons.IH [OF Cons.prems] show ?thesis by simp
  qed
qed

lemma holdsRows_frame:
  assumes "holdsRows h data rows"
    and "\<forall>a<nextAddr h. cells h' a = cells h a" and "nextAddr h \<le> nextAddr h'"
  shows "holdsRows h' data rows"
proof -
  from assms(1) obtain elems where lt: "data < nextAddr h"
    and arr: "getRowArray h data = Some elems"
    and below: "list_all (\<lambda>v. v < nextAddr h) elems"
    and rows: "map (getRow h) elems = map Some rows"
    by (auto simp: holdsRows_def split: option.splits)
  have arr': "getRowArray h' data = Some elems"
    using arr lt assms(2) by (simp add: getRowArray_def)
  have below': "list_all (\<lambda>v. v < nextAddr h') elems"
    using below assms(3) by (auto simp: list_all_iff)
  have "map (getRow h') elems = map (getRow h) elems"
  proof (rule map_cong [OF refl])
    fix e assume "e \<in> set elems"
    with below have "e < nextAddr h" by (simp add: list_all_iff)
    with assms(2) show "getRow h' e = getRow h e" by (simp add: getRow_def)
  qed
  with rows have rows': "map (getRow h') elems = map Some rows" by simp
  from lt assms(3) arr' below' rows' show ?thesis
    by (simp add: holdsRows_def)
qed

lemma those_map_Some: "those (map Some xs) = Some xs"
  by (induction xs) auto

lemma buildPieChart_st_run:
  assumes "holdsRows h data rows"
  shows "buildPieChart_st ext data chartTitle chartSubTitle showLegend showTitle outerRadius innerRadius donut
      numberFormat colorScheme showLabels labelsOutside labelLine labelPosition showTooltip highlight
      labelType legendVertical legendHorizontal legendOrientation
      marginTop marginBottom marginRight marginLeft h
     = Some (buildPieChart ext rows chartTitle chartSubTitle showLegend showTitle outerRadius innerRadius donut
      numberFormat colorScheme showLabels labelsOutside labelLine labelPosition showTooltip highlight
      labelType legendVertical legendHorizontal legendOrientation
      marginTop marginBottom marginRight marginLeft,
         h\<lparr>cells := (cells h)
              (nextAddr h \<mapsto> StrSet (fold (\<lambda>el s. fold (\<lambda>k s. setAdd s k) el s)
                                          (map objectKeys rows) []),
               Suc (nextAddr h) \<mapsto> NVArray (transformSeriesData rows)),
           nextAddr := Suc (Suc (nextAddr h))\<rparr>)"
  unfolding buildPieChart_st_def buildPieChart_def transformSeriesData_st_run [OF assms]
  by (simp add: getNVArray_def Let_def)

lemma buildEchartOptionsStacked_st_run:
  assumes "holdsRows h data rows"
  shows "buildEchartOptionsStacked_st ext data cols invertBars showLegend seriesLabelsShow
      seriesLabelsPosition seriesCategoriesShow numberFormat seriesLabelsFormat colorScheme
      showTooltip stackSeries marginTop marginBottom marginRight marginLeft legendOrientation h
     = Some (buildEchartOptionsStacked ext rows cols invertBars showLegend seriesLabelsShow
      seriesLabelsPosition seriesCategoriesShow numberFormat seriesLabelsFormat colorScheme
      showTooltip stackSeries marginTop marginBottom marginRight marginLeft legendOrientation,
         h\<lparr>cells := (cells h)
              (nextAddr h \<mapsto> StrSet (fold (\<lambda>el s. fold (\<lambda>k s. setAdd s k) el s)
                                          (map objectKeys rows) []),
               Suc (nextAddr h) \<mapsto> SeriesArray (sc_series
                  (buildEchartOptionsStacked ext rows cols invertBars showLegend seriesLabelsShow
      seriesLabelsPosition seriesCategoriesShow numberFormat seriesLabelsFormat colorScheme
      showTooltip stackSeries marginTop marginBottom marginRight marginLeft legendOrientation))),
           nextAddr := Suc (Suc (nextAddr h))\<rparr>)"
proof -
  from assms obtain elems where lt: "data < nextAddr h"
    and arr: "getRowArray h data = Some elems"
    and below: "list_all (\<lambda>v. v < nextAddr h) elems"
    and rows: "map (getRow h) elems = map Some rows"
    by (auto simp: holdsRows_def split: option.splits)
  let ?ks = "fold (\<lambda>el s. fold (\<lambda>k s. setAdd s k) el s) (map objectKeys rows) []"
  let ?s = "nextAddr h"
  let ?out = "Suc (nextAddr h)"
  let ?h1 = "h\<lparr>cells := (cells h)(?s \<mapsto> StrSet []), nextAddr := Suc ?s\<rparr>"
  let ?h2 = "?h1\<lparr>cells := (cells ?h1)(?s \<mapsto> StrSet ?ks)\<rparr>"
  let ?h3 = "?h2\<lparr>cells := (cells ?h2)(?out \<mapsto> SeriesArray []), nextAddr := Suc ?out\<rparr>"
  have keys: "those (map (\<lambda>v. map_option objectKeys (getRow h v)) elems)
      = Some (map objectKeys rows)"
    using rows by (rule those_keys)
  have al1: "alloc (StrSet []) h = (?s, ?h1)"
    by (simp add: alloc_def)
  have "getStrSet ?h1 ?s = Some []"
    by (simp add: getStrSet_def)
  then have loop1: "forEach (\<lambda>el. forEach (\<lambda>k. setAdd_st ?s k) el) (map objectKeys rows) ?h1
      = Some ?h2"
    by (rule forEach_keys)
  have dims: "getStrSet ?h2 ?s = Some ?ks"
    by (simp add: getStrSet_def)
  have al2: "alloc (SeriesArray []) ?h2 = (?out, ?h3)"
    by (simp add: alloc_def)
  have a3: "getSeriesArray ?h3 ?out = Some []"
    by (simp add: getSeriesArray_def)
  have ser: "\<And>F. getSeriesArray (?h3\<lparr>cells := (cells ?h3)(?out \<mapsto> SeriesArray F)\<rparr>) ?out
      = Some F"
    by (simp add: getSeriesArray_def)
  have frame: "\<And>F. \<forall>a<nextAddr h.
      cells (?h3\<lparr>cells := (cells ?h3)(?out \<mapsto> SeriesArray F)\<rparr>) a = cells h a"
    by simp
  have hr: "\<And>F. holdsRows (?h3\<lparr>cells := (cells ?h3)(?out \<mapsto> SeriesArray F)\<rparr>) data rows"
    using assms frame by (rule holdsRows_frame) simp
  have arr4: "\<And>F. getRowArray (?h3\<lparr>cells := (cells ?h3)(?out \<mapsto> SeriesArray F)\<rparr>) data
      = Some elems"
    using arr lt by (simp add: getRowArray_def)
  have "\<And>F. map (getRow (?h3\<lparr>cells := (cells ?h3)(?out \<mapsto> SeriesArray F)\<rparr>)) elems
      = map Some rows"
    using hr arr4 by (simp add: holdsRows_def)
  then have src: "\<And>F. those (map (getRow (?h3\<lparr>cells := (cells ?h3)
      (?out \<mapsto> SeriesArray F)\<rparr>)) elems) = Some rows"
    by (simp only: those_map_Some)
  show ?thesis
    unfolding buildEchartOptionsStacked_st_def Let_def
    apply (simp only: arr keys al1 loop1 dims al2 option.case prod.case)
    apply (subst forEach_push_series [where acc = "[]"])
     apply (rule a3)
    apply (simp only: option.case ser arr4 src)
    unfolding buildEchartOptionsStacked_def Let_def fold_filter_push_acc
    apply (simp cong: if_cong)
    done
qed


section \<open>Determinism and the store\<close>

text \<open>
  C9. Both transforms are deterministic, and they write to none of the caller's objects.
  Take a store \<open>h\<close> that holds the rows at \<open>data\<close>, and any store \<open>g\<close> that holds structurally
  identical rows at \<open>data'\<close>; the options and the external libraries (the colour scale among
  them) are the same for all invocations. Then the pie transform and the bar transform each
  return, in \<open>h\<close>, in the store \<open>h'\<close> that the first invocation leaves, and in \<open>g\<close>, the same
  chart specification: the one that the rows' contents and the options determine. Every
  object allocated in \<open>h\<close> is the same in \<open>h'\<close>: the rows and their array are not written
  to, and \<open>h'\<close> holds the same rows at \<open>data\<close>.
\<close>

theorem transforms_deterministic:
  fixes ext :: "'n externals" and rows :: "'n row list"
    and chartTitle chartSubTitle showLegend showTitle outerRadius innerRadius donut numberFormat
    colorScheme showLabels labelsOutside labelLine labelPosition showTooltip highlight labelType
    legendVertical legendHorizontal legendOrientation marginTop marginBottom marginRight marginLeft
    cols invertBars seriesLabelsShow seriesLabelsPosition seriesCategoriesShow seriesLabelsFormat
    stackSeries
  defines "pie \<equiv> \<lambda>data. buildPieChart_st ext data chartTitle chartSubTitle showLegend showTitle outerRadius
        innerRadius donut numberFormat colorScheme showLabels labelsOutside labelLine labelPosition
        showTooltip highlight labelType legendVertical legendHorizontal legendOrientation
        marginTop marginBottom marginRight marginLeft"
    and "pieSpec \<equiv> buildPieChart ext rows chartTitle chartSubTitle showLegend showTitle outerRadius
        innerRadius donut numberFormat colorScheme showLabels labelsOutside labelLine labelPosition
        showTooltip highlight labelType legendVertical legendHorizontal legendOrientation
        marginTop marginBottom marginRight marginLeft"
    and "bar \<equiv> \<lambda>data. buildEchartOptionsStacked_st ext data cols invertBars showLegend seriesLabelsShow
        seriesLabelsPosition seriesCategoriesShow numberFormat seriesLabelsFormat colorScheme
        showTooltip stackSeries marginTop marginBottom marginRight marginLeft legendOrientation"
    and "barSpec \<equiv> buildEchartOptionsStacked ext rows cols invertBars showLegend seriesLabelsShow
        seriesLabelsPosition seriesCategoriesShow numberFormat seriesLabelsFormat colorScheme
        showTooltip stackSeries marginTop marginBottom marginRight marginLeft legendOrientation"
  assumes inh: "holdsRows h data rows" and ing: "holdsRows g data' rows"
  shows "(\<exists>h' h'' g'.
            pie data h = Some (pieSpec, h') \<and> pie data h' = Some (pieSpec, h'')
          \<and> pie data' g = Some (pieSpec, g')
          \<and> (\<forall>a<nextAddr h. cells h' a = cells h a) \<and> holdsRows h' data rows)
       \<and> (\<exists>h' h'' g'.
            bar data h = Some (barSpec, h') \<and> bar data h' = Some (barSpec, h'')
          \<and> bar data' g = Some (barSpec, g')
          \<and> (\<forall>a<nextAddr h. cells h' a = cells h a) \<and> holdsRows h' data rows)"
    (is "?pie \<and> ?bar")
proof (rule conjI)
  obtain h' where run: "pie data h = Some (pieSpec, h')"
    and frame: "\<forall>a<nextAddr h. cells h' a = cells h a" and le: "nextAddr h \<le> nextAddr h'"
    unfolding pie_def pieSpec_def using buildPieChart_st_run [OF inh] by simp
  have keep: "holdsRows h' data rows"
    using inh frame le by (rule holdsRows_frame)
  obtain h'' where again: "pie data h' = Some (pieSpec, h'')"
    unfolding pie_def pieSpec_def using buildPieChart_st_run [OF keep] by simp
  obtain g' where other: "pie data' g = Some (pieSpec, g')"
    unfolding pie_def pieSpec_def using buildPieChart_st_run [OF ing] by simp
  show ?pie
    using run again other frame keep by (intro exI conjI)
next
  obtain h' where run: "bar data h = Some (barSpec, h')"
    and frame: "\<forall>a<nextAddr h. cells h' a = cells h a" and le: "nextAddr h \<le> nextAddr h'"
    unfolding bar_def barSpec_def using buildEchartOptionsStacked_st_run [OF inh] by simp
  have keep: "holdsRows h' data rows"
    using inh frame le by (rule holdsRows_frame)
  obtain h'' where again: "bar data h' = Some (barSpec, h'')"
    unfolding bar_def barSpec_def using buildEchartOptionsStacked_st_run [OF keep] by simp
  obtain g' where other: "bar data' g = Some (barSpec, g')"
    unfolding bar_def barSpec_def using buildEchartOptionsStacked_st_run [OF ing] by simp
  show ?bar
    using run again other frame keep by (intro exI conjI)
qed

text \<open>
  The two example stores hold the same rows; both transforms return the same specification in
  the one and in the other.
\<close>

theorem transforms_deterministic_witness:
  "holdsRows exampleStore 2 exampleRows \<and> holdsRows otherStore 0 exampleRows
   \<and> map_option fst (buildPieChart_st exampleExt 2 ''Sales'' ''by region'' True True 70 50 False ''SMART_NUMBER''
      ''supersetColors'' True True True ''outside'' True True ''key_value'' ''top'' ''right''
      ''vertical'' ''5%'' ''5%'' ''5%'' ''5%'' exampleStore)
     = map_option fst (buildPieChart_st exampleExt 0 ''Sales'' ''by region'' True True 70 50 False ''SMART_NUMBER''
      ''supersetColors'' True True True ''outside'' True True ''key_value'' ''top'' ''right''
      ''vertical'' ''5%'' ''5%'' ''5%'' ''5%'' otherStore)
   \<and> map_option fst (buildPieChart_st exampleExt 2 ''Sales'' ''by region'' True True 70 50 False ''SMART_NUMBER''
      ''supersetColors'' True True True ''outside'' True True ''key_value'' ''top'' ''right''
      ''vertical'' ''5%'' ''5%'' ''5%'' ''5%'' exampleStore)
     = Some (buildPieChart exampleExt exampleRows ''Sales'' ''by region'' True True 70 50 False ''SMART_NUMBER''
      ''supersetColors'' True True True ''outside'' True True ''key_value'' ''top'' ''right''
      ''vertical'' ''5%'' ''5%'' ''5%'' ''5%'')
   \<and> map_option fst (buildEchartOptionsStacked_st exampleExt 2 ''region'' False True False ''top'' True
      ''SMART_NUMBER'' ''default'' ''supersetColors'' True False ''5%'' ''5%'' ''5%'' ''5%'' ''top'' exampleStore)
     = map_option fst (buildEchartOptionsStacked_st exampleExt 0 ''region'' False True False ''top'' True
      ''SMART_NUMBER'' ''default'' ''supersetColors'' True False ''5%'' ''5%'' ''5%'' ''5%'' ''top'' otherStore)
   \<and> map_option fst (buildEchartOptionsStacked_st exampleExt 2 ''region'' False True False ''top'' True
      ''SMART_NUMBER'' ''default'' ''supersetColors'' True False ''5%'' ''5%'' ''5%'' ''5%'' ''top'' exampleStore)
     = Some (buildEchartOptionsStacked exampleExt exampleRows ''region'' False True False ''top'' True
      ''SMART_NUMBER'' ''default'' ''supersetColors'' True False ''5%'' ''5%'' ''5%'' ''5%'' ''top'')"
proof -
  have w1: "holdsRows exampleStore 2 exampleRows"
    by (simp add: holdsRows_def exampleStore_def exampleRows_def getRowArray_def getRow_def)
  have w2: "holdsRows otherStore 0 exampleRows"
    by (simp add: holdsRows_def otherStore_def exampleRows_def getRowArray_def getRow_def)
  note pie = transforms_deterministic [where ext = exampleExt
      and chartTitle = "''Sales''" and chartSubTitle = "''by region''" and showLegend = True
      and showTitle = True and outerRadius = 70 and innerRadius = 50 and donut = False
      and numberFormat = "''SMART_NUMBER''" and colorScheme = "''supersetColors''"
      and showLabels = True and labelsOutside = True and labelLine = True
      and labelPosition = "''outside''" and showTooltip = True and highlight = True
      and labelType = "''key_value''" and legendVertical = "''top''"
      and legendHorizontal = "''right''" and legendOrientation = "''vertical''"
      and marginTop = "''5%''" and marginBottom = "''5%''" and marginRight = "''5%''"
      and marginLeft = "''5%''", OF w1 w2, THEN conjunct1]
  note bar = transforms_deterministic [where ext = exampleExt
      and cols = "''region''" and invertBars = False and showLegend = True
      and seriesLabelsShow = False and seriesLabelsPosition = "''top''"
      and seriesCategoriesShow = True and numberFormat = "''SMART_NUMBER''"
      and seriesLabelsFormat = "''default''" and colorScheme = "''supersetColors''"
      and showTooltip = True and stackSeries = False and legendOrientation = "''top''"
      and marginTop = "''5%''" and marginBottom = "''5%''" and marginRight = "''5%''"
      and marginLeft = "''5%''", OF w1 w2, THEN conjunct2]
  obtain h' g' where
    "buildPieChart_st exampleExt 2 ''Sales'' ''by region'' True True 70 50 False ''SMART_NUMBER''
      ''supersetColors'' True True True ''outside'' True True ''key_value'' ''top'' ''right''
      ''vertical'' ''5%'' ''5%'' ''5%'' ''5%'' exampleStore
       = Some (buildPieChart exampleExt exampleRows ''Sales'' ''by region'' True True 70 50 False ''SMART_NUMBER''
      ''supersetColors'' True True True ''outside'' True True ''key_value'' ''top'' ''right''
      ''vertical'' ''5%'' ''5%'' ''5%'' ''5%'', h')"
    "buildPieChart_st exampleExt 0 ''Sales'' ''by region'' True True 70 50 False ''SMART_NUMBER''
      ''supersetColors'' True True True ''outside'' True True ''key_value'' ''top'' ''right''
      ''vertical'' ''5%'' ''5%'' ''5%'' ''5%'' otherStore
       = Some (buildPieChart exampleExt exampleRows ''Sales'' ''by region'' True True 70 50 False ''SMART_NUMBER''
      ''supersetColors'' True True True ''outside'' True True ''key_value'' ''top'' ''right''
      ''vertical'' ''5%'' ''5%'' ''5%'' ''5%'', g')"
    using pie by blast
  moreover obtain k' l' where
    "buildEchartOptionsStacked_st exampleExt 2 ''region'' False True False ''top'' True
      ''SMART_NUMBER'' ''default'' ''supersetColors'' True False ''5%'' ''5%'' ''5%'' ''5%'' ''top'' exampleStore
       = Some (buildEchartOptionsStacked exampleExt exampleRows ''region'' False True False ''top'' True
      ''SMART_NUMBER'' ''default'' ''supersetColors'' True False ''5%'' ''5%'' ''5%'' ''5%'' ''top'', k')"
    "buildEchartOptionsStacked_st exampleExt 0 ''region'' False True False ''top'' True
      ''SMART_NUMBER'' ''default'' ''supersetColors'' True False ''5%'' ''5%'' ''5%'' ''5%'' ''top'' otherStore
       = Some (buildEchartOptionsStacked exampleExt exampleRows ''region'' False True False ''top'' True
      ''SMART_NUMBER'' ''default'' ''supersetColors'' True False ''5%'' ''5%'' ''5%'' ''5%'' ''top'', l')"
    using bar by blast
  ultimately show ?thesis
    using w1 w2 by simp
qed

end
